theory Spec2Isabelle
  imports Complex_Main "HOL-Library.Code_Target_Nat"
begin

section \<open>JavaScript strings\<close>

text \<open>
  A JavaScript string is a sequence of UTF-16 code units; offsets, \<open>length\<close>, \<open>text[i]\<close>
  and regular expressions without the \<open>u\<close> flag all work on code units.
  Code units are modelled as natural numbers.
\<close>

type_synonym jsstring = "nat list"

definition substring :: "jsstring \<Rightarrow> nat \<Rightarrow> nat \<Rightarrow> jsstring" where
  "substring t a b = take (b - a) (drop a t)"

text \<open>The set matched by \<open>\s\<close> and removed by \<open>trim\<close>: WhiteSpace and LineTerminator.\<close>

definition isLineTerminator :: "nat \<Rightarrow> bool" where
  "isLineTerminator c = (c = 0x0A \<or> c = 0x0D \<or> c = 0x2028 \<or> c = 0x2029)"

definition isWhiteSpace :: "nat \<Rightarrow> bool" where
  "isWhiteSpace c =
     (c = 0x09 \<or> c = 0x0A \<or> c = 0x0B \<or> c = 0x0C \<or> c = 0x0D \<or> c = 0x20 \<or> c = 0xA0
      \<or> c = 0x1680 \<or> (0x2000 \<le> c \<and> c \<le> 0x200A) \<or> c = 0x2028 \<or> c = 0x2029
      \<or> c = 0x202F \<or> c = 0x205F \<or> c = 0x3000 \<or> c = 0xFEFF)"

definition isDigit :: "nat \<Rightarrow> bool" where
  "isDigit c = (0x30 \<le> c \<and> c \<le> 0x39)"

definition isWordChar :: "nat \<Rightarrow> bool" where
  "isWordChar c =
     ((0x41 \<le> c \<and> c \<le> 0x5A) \<or> (0x61 \<le> c \<and> c \<le> 0x7A) \<or> isDigit c \<or> c = 0x5F)"

definition trimEnd :: "jsstring \<Rightarrow> jsstring" where
  "trimEnd t = rev (dropWhile isWhiteSpace (rev t))"

definition trim :: "jsstring \<Rightarrow> jsstring" where
  "trim t = trimEnd (dropWhile isWhiteSpace t)"

text \<open>
  Case mapping of a single code unit. The table covers Basic Latin, the letters of
  Latin-1, the ligature oe and the Cyrillic letters U+0400 to U+045F; every other code
  unit is left as it is.
\<close>

definition toUpperUnit :: "nat \<Rightarrow> nat" where
  "toUpperUnit c =
     (if 0x61 \<le> c \<and> c \<le> 0x7A then c - 0x20
      else if 0xE0 \<le> c \<and> c \<le> 0xFE \<and> c \<noteq> 0xF7 then c - 0x20
      else if c = 0xFF then 0x178
      else if c = 0x153 then 0x152
      else if 0x430 \<le> c \<and> c \<le> 0x44F then c - 0x20
      else if 0x450 \<le> c \<and> c \<le> 0x45F then c - 0x50
      else c)"

definition toLowerUnit :: "nat \<Rightarrow> nat" where
  "toLowerUnit c =
     (if 0x41 \<le> c \<and> c \<le> 0x5A then c + 0x20
      else if 0xC0 \<le> c \<and> c \<le> 0xDE \<and> c \<noteq> 0xD7 then c + 0x20
      else if c = 0x178 then 0xFF
      else if c = 0x152 then 0x153
      else if 0x410 \<le> c \<and> c \<le> 0x42F then c + 0x20
      else if 0x400 \<le> c \<and> c \<le> 0x40F then c + 0x50
      else c)"

text \<open>\<open>String.prototype.toUpperCase\<close>: the sharp s becomes two letters.\<close>

definition toUpperCase :: "jsstring \<Rightarrow> jsstring" where
  "toUpperCase t = concat (map (\<lambda>c. if c = 0xDF then [0x53, 0x53] else [toUpperUnit c]) t)"

definition toLowerCase :: "jsstring \<Rightarrow> jsstring" where
  "toLowerCase t = map toLowerUnit t"

text \<open>
  The string iterator (\<open>for (const ch of text)\<close>, \<open>[...text]\<close>) yields one string per code
  point: a surrogate pair stays together, anything else is a single code unit.
\<close>

definition isHighSurrogate :: "nat \<Rightarrow> bool" where
  "isHighSurrogate c = (0xD800 \<le> c \<and> c \<le> 0xDBFF)"

definition isLowSurrogate :: "nat \<Rightarrow> bool" where
  "isLowSurrogate c = (0xDC00 \<le> c \<and> c \<le> 0xDFFF)"

fun spread :: "jsstring \<Rightarrow> jsstring list" where
  "spread [] = []"
| "spread [c] = [[c]]"
| "spread (c # d # cs) =
     (if isHighSurrogate c \<and> isLowSurrogate d then [c, d] # spread cs
      else [c] # spread (d # cs))"

text \<open>\<open>ch.codePointAt(0)\<close> on such a one-code-point string.\<close>

fun codePointAt0 :: "jsstring \<Rightarrow> nat" where
  "codePointAt0 [] = 0"
| "codePointAt0 [c] = c"
| "codePointAt0 (c # d # cs) =
     (if isHighSurrogate c \<and> isLowSurrogate d
      then (c - 0xD800) * 0x400 + (d - 0xDC00) + 0x10000 else c)"

text \<open>\<open>s.includes(sub)\<close>, \<open>s.split(sep)\<close> for a non-empty separator, \<open>xs.join(sep)\<close>.\<close>

fun startsWith :: "jsstring \<Rightarrow> jsstring \<Rightarrow> bool" where
  "startsWith t [] = True"
| "startsWith [] (p # ps) = False"
| "startsWith (c # cs) (p # ps) = (c = p \<and> startsWith cs ps)"

fun js_includes :: "jsstring \<Rightarrow> jsstring \<Rightarrow> bool" where
  "js_includes [] sub = (sub = [])"
| "js_includes (c # cs) sub = (startsWith (c # cs) sub \<or> js_includes cs sub)"

fun split_acc :: "nat \<Rightarrow> jsstring \<Rightarrow> jsstring \<Rightarrow> jsstring list" where
  "split_acc sep cur [] = [rev cur]"
| "split_acc sep cur (c # cs) =
     (if c = sep then rev cur # split_acc sep [] cs else split_acc sep (c # cur) cs)"

definition js_split :: "jsstring \<Rightarrow> nat \<Rightarrow> jsstring list" where
  "js_split t sep = split_acc sep [] t"

fun js_join :: "jsstring list \<Rightarrow> jsstring \<Rightarrow> jsstring" where
  "js_join [] sep = []"
| "js_join [x] sep = x"
| "js_join (x # y # xs) sep = x @ sep @ js_join (y # xs) sep"

section \<open>Regular expressions\<close>

text \<open>
  The rules are written with regular expressions. They are modelled by their syntax
  trees and a backtracking matcher in continuation-passing style that follows the
  matcher of the ECMAScript specification (without the \<open>u\<close> flag): alternatives are tried
  left to right, quantifiers are greedy unless marked lazy, an iteration of a
  quantifier that matches the empty string is rejected.
\<close>

datatype citem = CChar nat | CRange nat nat | CSpace | CNotSpace | CDigit | CWord

datatype regex =
    Cls bool "citem list"
  | Dot
  | Eps
  | Seq regex regex
  | Alt regex regex
  | Rep nat "nat option" bool regex
  | Grp nat regex
  | Bref nat
  | Bol
  | Eol
  | WordB
  | Look bool regex
  | LookB bool bool "citem list"

text \<open>
  \<open>Cls neg items\<close> is a character class (\<open>neg\<close> for \<open>[^...]\<close>), \<open>Rep min max greedy r\<close> a
  quantifier, \<open>Grp n r\<close> the \<open>n\<close>-th capturing group, \<open>Bref n\<close> the backreference \<open>\n\<close>,
  \<open>Look pos r\<close> a lookahead \<open>(?=r)\<close> or \<open>(?!r)\<close>, and \<open>LookB pos neg items\<close> a lookbehind
  \<open>(?<=[...])\<close> or \<open>(?<![...])\<close> on one character class, the only form the rules use.
\<close>

definition Chr :: "nat \<Rightarrow> regex" where
  "Chr c = Cls False [CChar c]"

definition Seqs :: "regex list \<Rightarrow> regex" where
  "Seqs rs = foldr Seq rs Eps"

definition Str :: "jsstring \<Rightarrow> regex" where
  "Str s = Seqs (map Chr s)"

fun Alts :: "regex list \<Rightarrow> regex" where
  "Alts [] = Eps"
| "Alts [r] = r"
| "Alts (r # rs) = Alt r (Alts rs)"

definition Star :: "regex \<Rightarrow> regex" where
  "Star r = Rep 0 None True r"

definition Plus :: "regex \<Rightarrow> regex" where
  "Plus r = Rep 1 None True r"

definition Opt :: "regex \<Rightarrow> regex" where
  "Opt r = Rep 0 (Some 1) True r"

record flags =
  ignoreCase :: bool
  multiline :: bool

definition noflags :: flags where
  "noflags = \<lparr>ignoreCase = False, multiline = False\<rparr>"

definition flag_i :: flags where
  "flag_i = \<lparr>ignoreCase = True, multiline = False\<rparr>"

definition flag_m :: flags where
  "flag_m = \<lparr>ignoreCase = False, multiline = True\<rparr>"

fun item_match :: "nat \<Rightarrow> citem \<Rightarrow> bool" where
  "item_match c (CChar x) = (c = x)"
| "item_match c (CRange lo hi) = (lo \<le> c \<and> c \<le> hi)"
| "item_match c CSpace = isWhiteSpace c"
| "item_match c CNotSpace = (\<not> isWhiteSpace c)"
| "item_match c CDigit = isDigit c"
| "item_match c CWord = isWordChar c"

text \<open>
  Canonicalize of the specification: with \<open>i\<close>, a code unit is compared through its
  upper case, unless that would turn a non-ASCII unit into an ASCII one.
\<close>

definition canonicalize :: "flags \<Rightarrow> nat \<Rightarrow> nat" where
  "canonicalize fl c =
     (if ignoreCase fl
      then (let u = toUpperUnit c in if 128 \<le> c \<and> u < 128 then c else u)
      else c)"

definition cls_match :: "flags \<Rightarrow> bool \<Rightarrow> citem list \<Rightarrow> nat \<Rightarrow> bool" where
  "cls_match fl neg items c =
     (neg \<noteq>
       (if ignoreCase fl
        then (\<exists>x \<in> set items. item_match c x \<or> item_match (canonicalize fl c) x
                \<or> item_match (toLowerUnit (canonicalize fl c)) x)
        else (\<exists>x \<in> set items. item_match c x)))"

type_synonym caps = "nat \<Rightarrow> (nat \<times> nat) option"
type_synonym mstate = "nat \<times> caps"
type_synonym cont = "mstate \<Rightarrow> mstate option"

fun groups_of :: "regex \<Rightarrow> nat list" where
  "groups_of (Seq a b) = groups_of a @ groups_of b"
| "groups_of (Alt a b) = groups_of a @ groups_of b"
| "groups_of (Rep mn mx g r) = groups_of r"
| "groups_of (Grp n r) = n # groups_of r"
| "groups_of (Look p r) = groups_of r"
| "groups_of r = []"

definition clear_caps :: "nat list \<Rightarrow> caps \<Rightarrow> caps" where
  "clear_caps gs cs = (\<lambda>n. if n \<in> set gs then None else cs n)"

text \<open>
  RepeatMatcher. The first argument bounds the number of iterations; the matcher calls
  it with \<open>min\<close> plus the number of code units left plus one, which no run can use up,
  since an iteration either lowers \<open>min\<close> or consumes a code unit.
\<close>

primrec rep :: "nat \<Rightarrow> (mstate \<Rightarrow> cont \<Rightarrow> mstate option) \<Rightarrow> nat list \<Rightarrow> nat \<Rightarrow> nat option
    \<Rightarrow> bool \<Rightarrow> mstate \<Rightarrow> cont \<Rightarrow> mstate option" where
  "rep 0 mr gs mn mx g x c = None"
| "rep (Suc fuel) mr gs mn mx g x c =
     (if mx = Some 0 then c x
      else
        let d = (\<lambda>y. if mn = 0 \<and> fst y = fst x then None
                     else rep fuel mr gs (mn - 1) (map_option (\<lambda>n. n - 1) mx) g y c);
            xr = (fst x, clear_caps gs (snd x))
        in if mn \<noteq> 0 then mr xr d
           else if \<not> g then (case c x of Some z \<Rightarrow> Some z | None \<Rightarrow> mr xr d)
           else (case mr xr d of Some z \<Rightarrow> Some z | None \<Rightarrow> c x))"

fun m :: "flags \<Rightarrow> jsstring \<Rightarrow> regex \<Rightarrow> mstate \<Rightarrow> cont \<Rightarrow> mstate option" where
  "m fl t (Cls neg items) st k =
     (if fst st < length t \<and> cls_match fl neg items (t ! fst st)
      then k (Suc (fst st), snd st) else None)"
| "m fl t Dot st k =
     (if fst st < length t \<and> \<not> isLineTerminator (t ! fst st)
      then k (Suc (fst st), snd st) else None)"
| "m fl t Eps st k = k st"
| "m fl t (Seq a b) st k = m fl t a st (\<lambda>st'. m fl t b st' k)"
| "m fl t (Alt a b) st k =
     (case m fl t a st k of Some z \<Rightarrow> Some z | None \<Rightarrow> m fl t b st k)"
| "m fl t (Rep mn mx g r) st k =
     rep (Suc (mn + (length t - fst st))) (m fl t r) (groups_of r) mn mx g st k"
| "m fl t (Grp n r) st k =
     m fl t r st (\<lambda>st'. k (fst st', (snd st')(n \<mapsto> (fst st, fst st'))))"
| "m fl t (Bref n) st k =
     (case snd st n of
        None \<Rightarrow> k st
      | Some (a, b) \<Rightarrow>
          if fst st + (b - a) \<le> length t
             \<and> map (canonicalize fl) (substring t a b)
               = map (canonicalize fl) (substring t (fst st) (fst st + (b - a)))
          then k (fst st + (b - a), snd st) else None)"
| "m fl t Bol st k =
     (if fst st = 0 \<or> (multiline fl \<and> isLineTerminator (t ! (fst st - 1)))
      then k st else None)"
| "m fl t Eol st k =
     (if fst st = length t \<or> (multiline fl \<and> fst st < length t \<and> isLineTerminator (t ! fst st))
      then k st else None)"
| "m fl t WordB st k =
     (if (0 < fst st \<and> isWordChar (t ! (fst st - 1)))
         \<noteq> (fst st < length t \<and> isWordChar (t ! fst st))
      then k st else None)"
| "m fl t (Look pos r) st k =
     (case m fl t r st Some of
        Some st' \<Rightarrow> if pos then k (fst st, snd st') else None
      | None \<Rightarrow> if pos then None else k st)"
| "m fl t (LookB pos neg items) st k =
     (if (0 < fst st \<and> cls_match fl neg items (t ! (fst st - 1))) = pos
      then k st else None)"

text \<open>
  \<open>RegExpBuiltinExec\<close> from \<open>lastIndex\<close>: the first position at or after it where the
  pattern matches, with the end of the match and the captures.
\<close>

function exec_from :: "flags \<Rightarrow> regex \<Rightarrow> jsstring \<Rightarrow> nat \<Rightarrow> (nat \<times> nat \<times> caps) option" where
  "exec_from fl re t i =
     (if length t < i then None
      else case m fl t re (i, \<lambda>_. None) Some of
             Some st \<Rightarrow> Some (i, fst st, snd st)
           | None \<Rightarrow> exec_from fl re t (Suc i))"
  by pat_completeness auto
termination
  by (relation "measure (\<lambda>(fl, re, t, i). Suc (length t) - i)") auto

definition re_test :: "flags \<Rightarrow> regex \<Rightarrow> jsstring \<Rightarrow> bool" where
  "re_test fl re t = (exec_from fl re t 0 \<noteq> None)"

definition group_str :: "jsstring \<Rightarrow> caps \<Rightarrow> nat \<Rightarrow> jsstring option" where
  "group_str t cs n = (case cs n of None \<Rightarrow> None | Some (a, b) \<Rightarrow> Some (substring t a b))"

subsection \<open>A match never ends before it starts\<close>

lemma rep_mono:
  assumes mr: "\<And>st k z. mr st k = Some z \<Longrightarrow> \<exists>j cs. fst st \<le> j \<and> k (j, cs) = Some z"
  shows "rep fuel mr gs mn mx g x c = Some z \<Longrightarrow> \<exists>j cs. fst x \<le> j \<and> c (j, cs) = Some z"
proof (induction fuel arbitrary: mn mx x)
  case 0
  then show ?case by simp
next
  case (Suc fuel)
  let ?d = "\<lambda>y. if mn = 0 \<and> fst y = fst x then None
                 else rep fuel mr gs (mn - 1) (map_option (\<lambda>n. n - 1) mx) g y c"
  let ?xr = "(fst x, clear_caps gs (snd x))"
  have cx: "c x = Some z \<Longrightarrow> \<exists>j cs. fst x \<le> j \<and> c (j, cs) = Some z"
    by (cases x) auto
  have step: "mr ?xr ?d = Some z \<Longrightarrow> \<exists>j cs. fst x \<le> j \<and> c (j, cs) = Some z"
  proof -
    assume "mr ?xr ?d = Some z"
    from mr[OF this] obtain j cs where y: "fst ?xr \<le> j" "?d (j, cs) = Some z" by blast
    from y(2) have "rep fuel mr gs (mn - 1) (map_option (\<lambda>n. n - 1) mx) g (j, cs) c = Some z"
      by (simp split: if_splits)
    from Suc.IH[OF this] obtain j' cs' where "j \<le> j'" "c (j', cs') = Some z" by auto
    with y(1) show ?thesis by (intro exI[of _ j'] exI[of _ cs']) simp
  qed
  have "rep (Suc fuel) mr gs mn mx g x c = Some z \<Longrightarrow> c x = Some z \<or> mr ?xr ?d = Some z"
    by (simp add: Let_def split: if_splits option.splits)
  with Suc.prems cx step show ?case by blast
qed

lemma m_mono:
  "m fl t r st k = Some z \<Longrightarrow> \<exists>j cs. fst st \<le> j \<and> k (j, cs) = Some z"
proof (induction r arbitrary: st k z)
  case (Cls neg items)
  then have "k (Suc (fst st), snd st) = Some z" by (simp split: if_splits)
  then show ?case by (intro exI[of _ "Suc (fst st)"] exI[of _ "snd st"]) simp
next
  case Dot
  then have "k (Suc (fst st), snd st) = Some z" by (simp split: if_splits)
  then show ?case by (intro exI[of _ "Suc (fst st)"] exI[of _ "snd st"]) simp
next
  case Eps
  then show ?case by (intro exI[of _ "fst st"] exI[of _ "snd st"]) simp
next
  case (Seq a b)
  from Seq.prems have "m fl t a st (\<lambda>st'. m fl t b st' k) = Some z" by simp
  from Seq.IH(1)[OF this] obtain j1 c1 where s1: "fst st \<le> j1" "m fl t b (j1, c1) k = Some z" by blast
  from Seq.IH(2)[OF s1(2)] obtain j2 c2 where "j1 \<le> j2" "k (j2, c2) = Some z" by auto
  with s1(1) show ?case by (intro exI[of _ j2] exI[of _ c2]) simp
next
  case (Alt a b)
  from Alt.prems have "m fl t a st k = Some z \<or> m fl t b st k = Some z"
    by (simp split: option.splits)
  with Alt.IH show ?case by blast
next
  case (Rep mn mx g r)
  from Rep.prems have "rep (Suc (mn + (length t - fst st))) (m fl t r) (groups_of r) mn mx g st k = Some z"
    by simp
  then show ?case by (rule rep_mono[rotated]) (rule Rep.IH)
next
  case (Grp n r)
  from Grp.prems have "m fl t r st (\<lambda>st'. k (fst st', (snd st')(n \<mapsto> (fst st, fst st')))) = Some z"
    by simp
  from Grp.IH[OF this] show ?case by auto
next
  case (Bref n)
  show ?case
  proof (cases "snd st n")
    case None
    with Bref have "k st = Some z" by simp
    then show ?thesis by (intro exI[of _ "fst st"] exI[of _ "snd st"]) simp
  next
    case (Some ab)
    with Bref have "k (fst st + (snd ab - fst ab), snd st) = Some z"
      by (cases ab) (simp split: if_splits)
    then show ?thesis by (intro exI[of _ "fst st + (snd ab - fst ab)"] exI[of _ "snd st"]) simp
  qed
next
  case Bol
  then have "k st = Some z" by (simp split: if_splits)
  then show ?case by (intro exI[of _ "fst st"] exI[of _ "snd st"]) simp
next
  case Eol
  then have "k st = Some z" by (simp split: if_splits)
  then show ?case by (intro exI[of _ "fst st"] exI[of _ "snd st"]) simp
next
  case WordB
  then have "k st = Some z" by (simp split: if_splits)
  then show ?case by (intro exI[of _ "fst st"] exI[of _ "snd st"]) simp
next
  case (Look pos r)
  then have "(\<exists>c. k (fst st, c) = Some z)"
    by (cases st) (auto split: option.splits if_splits)
  then show ?case by auto
next
  case (LookB pos neg items)
  then have "k st = Some z" by (simp split: if_splits)
  then show ?case by (intro exI[of _ "fst st"] exI[of _ "snd st"]) simp
qed

lemma exec_from_Some:
  "exec_from fl re t i = Some (s, e, cs) \<Longrightarrow> i \<le> s \<and> s \<le> length t \<and> s \<le> e"
proof (induction fl re t i rule: exec_from.induct)
  case (1 fl re t i)
  show ?case
  proof (cases "m fl t re (i, \<lambda>_. None) Some")
    case None
    with "1.prems" have le: "\<not> length t < i" and "exec_from fl re t (Suc i) = Some (s, e, cs)"
      by (auto split: if_splits)
    with "1.IH"[OF le None] show ?thesis by simp
  next
    case (Some st)
    from m_mono[OF Some] have "i \<le> fst st" by auto
    with Some "1.prems" show ?thesis by (auto split: if_splits)
  qed
qed

subsection \<open>Evaluation of the matcher\<close>

text \<open>
  The continuations that the matcher builds, as constants of their own. The equations
  below state the matcher with them; they are the code equations, so that a continuation
  is only unfolded once it is applied to a state.
\<close>

definition kseq :: "flags \<Rightarrow> jsstring \<Rightarrow> regex \<Rightarrow> cont \<Rightarrow> cont" where
  "kseq fl t b k = (\<lambda>st'. m fl t b st' k)"

definition kgrp :: "nat \<Rightarrow> nat \<Rightarrow> cont \<Rightarrow> cont" where
  "kgrp n i k = (\<lambda>st'. k (fst st', (snd st')(n \<mapsto> (i, fst st'))))"

definition krep :: "nat \<Rightarrow> (mstate \<Rightarrow> cont \<Rightarrow> mstate option) \<Rightarrow> nat list \<Rightarrow> nat \<Rightarrow> nat option
    \<Rightarrow> bool \<Rightarrow> mstate \<Rightarrow> cont \<Rightarrow> cont" where
  "krep fuel mr gs mn mx g x c =
     (\<lambda>y. if mn = 0 \<and> fst y = fst x then None
          else rep fuel mr gs (mn - 1) (map_option (\<lambda>n. n - 1) mx) g y c)"

lemma kseq_apply [code]: "kseq fl t b k st = m fl t b st k"
  by (simp add: kseq_def)

lemma kgrp_apply [code]: "kgrp n i k st = k (fst st, (snd st)(n \<mapsto> (i, fst st)))"
  by (simp add: kgrp_def)

lemma krep_apply [code]:
  "krep fuel mr gs mn mx g x c y =
     (if mn = 0 \<and> fst y = fst x then None
      else rep fuel mr gs (mn - 1) (map_option (\<lambda>n. n - 1) mx) g y c)"
  by (simp add: krep_def)

lemma rep_code [code]:
  "rep 0 mr gs mn mx g x c = None"
  "rep (Suc fuel) mr gs mn mx g x c =
     (if mx = Some 0 then c x
      else if mn \<noteq> 0 then mr (fst x, clear_caps gs (snd x)) (krep fuel mr gs mn mx g x c)
      else if \<not> g then
        (case c x of Some z \<Rightarrow> Some z
         | None \<Rightarrow> mr (fst x, clear_caps gs (snd x)) (krep fuel mr gs mn mx g x c))
      else
        (case mr (fst x, clear_caps gs (snd x)) (krep fuel mr gs mn mx g x c) of
           Some z \<Rightarrow> Some z | None \<Rightarrow> c x))"
  by (simp_all only: rep.simps krep_def Let_def)

lemma m_code [code]:
  "m fl t (Cls neg items) st k =
     (if fst st < length t \<and> cls_match fl neg items (t ! fst st)
      then k (Suc (fst st), snd st) else None)"
  "m fl t Dot st k =
     (if fst st < length t \<and> \<not> isLineTerminator (t ! fst st)
      then k (Suc (fst st), snd st) else None)"
  "m fl t Eps st k = k st"
  "m fl t (Seq a b) st k = m fl t a st (kseq fl t b k)"
  "m fl t (Alt a b) st k =
     (case m fl t a st k of Some z \<Rightarrow> Some z | None \<Rightarrow> m fl t b st k)"
  "m fl t (Rep mn mx g r) st k =
     rep (Suc (mn + (length t - fst st))) (m fl t r) (groups_of r) mn mx g st k"
  "m fl t (Grp n r) st k = m fl t r st (kgrp n (fst st) k)"
  "m fl t (Bref n) st k =
     (case snd st n of
        None \<Rightarrow> k st
      | Some (a, b) \<Rightarrow>
          if fst st + (b - a) \<le> length t
             \<and> map (canonicalize fl) (substring t a b)
               = map (canonicalize fl) (substring t (fst st) (fst st + (b - a)))
          then k (fst st + (b - a), snd st) else None)"
  "m fl t Bol st k =
     (if fst st = 0 \<or> (multiline fl \<and> isLineTerminator (t ! (fst st - 1)))
      then k st else None)"
  "m fl t Eol st k =
     (if fst st = length t \<or> (multiline fl \<and> fst st < length t \<and> isLineTerminator (t ! fst st))
      then k st else None)"
  "m fl t WordB st k =
     (if (0 < fst st \<and> isWordChar (t ! (fst st - 1)))
         \<noteq> (fst st < length t \<and> isWordChar (t ! fst st))
      then k st else None)"
  "m fl t (Look pos r) st k =
     (case m fl t r st Some of
        Some st' \<Rightarrow> if pos then k (fst st, snd st') else None
      | None \<Rightarrow> if pos then None else k st)"
  "m fl t (LookB pos neg items) st k =
     (if (0 < fst st \<and> cls_match fl neg items (t ! (fst st - 1))) = pos
      then k st else None)"
  by (simp_all add: kseq_def kgrp_def)

subsection \<open>Global matching and replacement\<close>

text \<open>
  All matches of a global pattern, as \<open>String.prototype.replace\<close> and \<open>match\<close> collect
  them: the search resumes at the end of the last match, one further after an empty
  match.
\<close>

function matches :: "flags \<Rightarrow> regex \<Rightarrow> jsstring \<Rightarrow> nat \<Rightarrow> (nat \<times> nat \<times> caps) list" where
  "matches fl re t lastIndex =
     (case exec_from fl re t lastIndex of
        None \<Rightarrow> []
      | Some (s, e, cs) \<Rightarrow> (s, e, cs) # matches fl re t (if e = s then Suc e else e))"
  by pat_completeness auto
termination
proof (relation "measure (\<lambda>(fl, re, t, i). Suc (length t) - i)", goal_cases)
  case 1
  show ?case by simp
next
  case (2 fl re t lastIndex x2 s y e cs)
  then have "exec_from fl re t lastIndex = Some (s, e, cs)" by simp
  from exec_from_Some[OF this] show ?case by auto
qed

text \<open>
  The replacement is a function of the matched text, the captured groups and the offset
  of the match, as the callback form of \<open>replace\<close> receives them. A replacement pattern
  such as \<open>'$1,$2'\<close> is the function \<open>template\<close> of its parts.
\<close>

type_synonym replacer = "jsstring \<Rightarrow> (nat \<Rightarrow> jsstring option) \<Rightarrow> nat \<Rightarrow> jsstring"

fun build :: "jsstring \<Rightarrow> replacer \<Rightarrow> nat \<Rightarrow> (nat \<times> nat \<times> caps) list \<Rightarrow> jsstring" where
  "build t f nextPos [] = drop nextPos t"
| "build t f nextPos ((s, e, cs) # ms) =
     substring t nextPos s @ f (substring t s e) (group_str t cs) s @ build t f e ms"

definition replace_g :: "flags \<Rightarrow> regex \<Rightarrow> replacer \<Rightarrow> jsstring \<Rightarrow> jsstring" where
  "replace_g fl re f t = build t f 0 (matches fl re t 0)"

datatype tpart = TLit jsstring | TGrp nat | TMatch

fun tpart_str :: "jsstring \<Rightarrow> (nat \<Rightarrow> jsstring option) \<Rightarrow> tpart \<Rightarrow> jsstring" where
  "tpart_str mt gs (TLit s) = s"
| "tpart_str mt gs (TGrp n) = (case gs n of None \<Rightarrow> [] | Some s \<Rightarrow> s)"
| "tpart_str mt gs TMatch = mt"

definition template :: "tpart list \<Rightarrow> replacer" where
  "template ps mt gs offset = concat (map (tpart_str mt gs) ps)"

text \<open>\<open>text.match(/re/g)\<close>: the matched substrings (the empty list stands for \<open>null\<close>).\<close>

definition match_g :: "flags \<Rightarrow> regex \<Rightarrow> jsstring \<Rightarrow> jsstring list" where
  "match_g fl re t = map (\<lambda>(s, e, cs). substring t s e) (matches fl re t 0)"

text \<open>
  The loop \<open>while ((match = pattern.exec(text)) !== null) ranges.push(...)\<close> over a global
  pattern whose \<open>lastIndex\<close> starts at 0: \<open>exec\<close> resumes at the end of the last match and
  does not step over an empty match, so a pattern that matches the empty string would
  be found at the same place for ever; \<open>None\<close> stands for that run that never returns.
\<close>

function exec_all :: "flags \<Rightarrow> regex \<Rightarrow> jsstring \<Rightarrow> nat \<Rightarrow> (nat \<times> nat) list option" where
  "exec_all fl re t lastIndex =
     (case exec_from fl re t lastIndex of
        None \<Rightarrow> Some []
      | Some (s, e, cs) \<Rightarrow>
          if e \<le> lastIndex then None
          else map_option ((#) (s, e)) (exec_all fl re t e))"
  by pat_completeness auto
termination
proof (relation "measure (\<lambda>(fl, re, t, i). Suc (length t) - i)", goal_cases)
  case 1
  show ?case by simp
next
  case (2 fl re t lastIndex x2 s y e cs)
  then have "exec_from fl re t lastIndex = Some (s, e, cs)" by simp
  from exec_from_Some[OF this] 2 show ?case by auto
qed

section \<open>Locale detector\<close>

datatype Locale = Ru | En | Fr | Zh | Ja | Common

record CharCounts =
  cyrillic :: nat
  cjk :: nat
  hiraganaKatakana :: nat
  french :: nat
  latin :: nat
  total :: nat

text \<open>The literal of French letters that \<open>countChars\<close> searches with \<open>includes\<close>.\<close>

definition frenchChars :: jsstring where
  "frenchChars =
     [0xE0, 0xE2, 0xE7, 0xE9, 0xE8, 0xEA, 0xEB, 0xEF, 0xEE, 0xF4, 0xF9, 0xFB, 0xFC, 0xFF,
      0x153, 0xE6, 0xC0, 0xC2, 0xC7, 0xC9, 0xC8, 0xCA, 0xCB, 0xCF, 0xCE, 0xD4, 0xD9, 0xDB,
      0xDC, 0x178, 0x152, 0xC6]"

text \<open>The body of the loop \<open>for (const ch of text)\<close> of \<open>countChars\<close>.\<close>

definition countChar :: "CharCounts \<Rightarrow> jsstring \<Rightarrow> CharCounts" where
  "countChar counts ch =
     (let code = codePointAt0 ch in
      if 0x0400 \<le> code \<and> code \<le> 0x04FF
        then counts\<lparr>cyrillic := cyrillic counts + 1, total := total counts + 1\<rparr>
      else if 0x4E00 \<le> code \<and> code \<le> 0x9FFF
        then counts\<lparr>cjk := cjk counts + 1, total := total counts + 1\<rparr>
      else if 0x3040 \<le> code \<and> code \<le> 0x30FF
        then counts\<lparr>hiraganaKatakana := hiraganaKatakana counts + 1, total := total counts + 1\<rparr>
      else if js_includes frenchChars ch
        then counts\<lparr>french := french counts + 1, total := total counts + 1\<rparr>
      else if (0x41 \<le> code \<and> code \<le> 0x5A) \<or> (0x61 \<le> code \<and> code \<le> 0x7A)
        then counts\<lparr>latin := latin counts + 1, total := total counts + 1\<rparr>
      else counts)"

definition countChars :: "jsstring \<Rightarrow> CharCounts" where
  "countChars text =
     foldl countChar
       \<lparr>cyrillic = 0, cjk = 0, hiraganaKatakana = 0, french = 0, latin = 0, total = 0\<rparr>
       (spread text)"

text \<open>The pattern \<open>/\s[;:!?]/\<close> of the French punctuation check.\<close>

definition frenchPunctuation :: regex where
  "frenchPunctuation =
     Seq (Cls False [CSpace]) (Cls False [CChar 0x3B, CChar 0x3A, CChar 0x21, CChar 0x3F])"

text \<open>
  \<open>detectLocale\<close>. The source divides two counts in double precision and compares with
  a decimal literal; the model divides in the reals, which gives the same comparison
  for every text shorter than \<open>2^50\<close> code units.
\<close>

definition detectLocale :: "jsstring \<Rightarrow> Locale" where
  "detectLocale text =
     (let counts = countChars text in
      if total counts = 0 then En
      else if real (hiraganaKatakana counts) / real (total counts) > 0.05 then Ja
      else if real (cjk counts) / real (total counts) > 0.2 then Zh
      else if real (cyrillic counts) / real (total counts) > 0.2 then Ru
      else if french counts > 0 \<and> latin counts > 0
              \<and> real (french counts) / real (latin counts + french counts) > 0.03 then Fr
      else if re_test noflags frenchPunctuation text \<and> latin counts > 0 then Fr
      else En)"


section \<open>Rules, settings and protected ranges\<close>

datatype RuleGroup =
    GQuotes | GDashes | GSpaces | GNumbers | GCurrency | GPunctuation | GCase | GSpecial
  | GYo | GWidth | GLayout

record RuleContext =
  ctx_locale :: Locale
  protectedRanges :: "(nat \<times> nat) list"

text \<open>
  A rule. The display names of the source (\<open>name\<close>) play no part in the engine and are
  left out. Rule identifiers are ASCII and are kept as Isabelle strings.
\<close>

record TypographyRule =
  rule_id :: string
  rule_locale :: Locale
  rule_group :: RuleGroup
  enabled :: bool
  priority :: int
  rule_apply :: "jsstring \<Rightarrow> RuleContext \<Rightarrow> jsstring"

datatype LocaleSetting = Auto | Fixed Locale

record TypographySettings =
  locale_setting :: LocaleSetting
  enabledRules :: "string \<rightharpoonup> bool"

definition NBSP :: nat where
  "NBSP = 0xA0"

definition THIN :: nat where
  "THIN = 0x2009"

definition NNBSP :: nat where
  "NNBSP = 0x202F"

text \<open>The atoms \<open>\d\<close>, \<open>\s\<close>, \<open>\S\<close>,
  \<open>\w\<close> and the class items of \<open>[\u0430-\u044F\u0410-\u042F\u0451\u0401]\<close>.\<close>

definition re_d :: regex where
  "re_d = Cls False [CDigit]"

definition re_s :: regex where
  "re_s = Cls False [CSpace]"

definition re_S :: regex where
  "re_S = Cls False [CNotSpace]"

definition re_w :: regex where
  "re_w = Cls False [CWord]"

definition cyr :: "citem list" where
  "cyr = [CRange 0x430 0x44F, CRange 0x410 0x42F, CChar 0x451, CChar 0x401]"

text \<open>A group of a match inside a callback (every callback of the rules reads groups
  that take part in each match).\<close>

definition grp :: "(nat \<Rightarrow> jsstring option) \<Rightarrow> nat \<Rightarrow> jsstring" where
  "grp gs n = (case gs n of None \<Rightarrow> [] | Some s \<Rightarrow> s)"

subsection \<open>Protected ranges\<close>

text \<open>
  \<open>PROTECTED_PATTERNS\<close>, in the order of the source:
  \<^item> URLs \<open>/https?:\/\/[^\s<>\"'\u00AB\u00BB\u201E"]+/g\<close>,
  \<^item> e-mail addresses \<open>/[\w.+-]+@[\w.-]+\.\w{2,}/g\<close>,
  \<^item> IP addresses \<open>/\b\d{1,3}\.\d{1,3}\.\d{1,3}\.\d{1,3}\b/g\<close>,
  \<^item> version numbers \<open>/\bv?\d+\.\d+\.\d+(?:\.\d+)?\b/g\<close>,
  \<^item> hex codes \<open>/\b0x[0-9a-fA-F]+\b/g\<close>.
\<close>

definition urlPattern :: regex where
  "urlPattern =
     Seqs [Str [0x68, 0x74, 0x74, 0x70], Opt (Chr 0x73), Str [0x3A, 0x2F, 0x2F],
           Plus (Cls True [CSpace, CChar 0x3C, CChar 0x3E, CChar 0x22, CChar 0x27,
                           CChar 0xAB, CChar 0xBB, CChar 0x201E, CChar 0x22])]"

definition emailPattern :: regex where
  "emailPattern =
     Seqs [Plus (Cls False [CWord, CChar 0x2E, CChar 0x2B, CChar 0x2D]), Chr 0x40,
           Plus (Cls False [CWord, CChar 0x2E, CChar 0x2D]), Chr 0x2E,
           Rep 2 None True re_w]"

definition ipPattern :: regex where
  "ipPattern =
     Seqs [WordB, Rep 1 (Some 3) True re_d, Chr 0x2E, Rep 1 (Some 3) True re_d, Chr 0x2E,
           Rep 1 (Some 3) True re_d, Chr 0x2E, Rep 1 (Some 3) True re_d, WordB]"

definition versionPattern :: regex where
  "versionPattern =
     Seqs [WordB, Opt (Chr 0x76), Plus re_d, Chr 0x2E, Plus re_d, Chr 0x2E, Plus re_d,
           Opt (Seq (Chr 0x2E) (Plus re_d)), WordB]"

definition hexPattern :: regex where
  "hexPattern =
     Seqs [WordB, Str [0x30, 0x78],
           Plus (Cls False [CRange 0x30 0x39, CRange 0x61 0x66, CRange 0x41 0x46]),
           WordB]"

definition PROTECTED_PATTERNS :: "regex list" where
  "PROTECTED_PATTERNS = [urlPattern, emailPattern, ipPattern, versionPattern, hexPattern]"

text \<open>
  \<open>findProtectedRanges\<close>: every pattern is run over the text with the \<open>exec\<close> loop,
    the
  ranges are collected and sorted by their start (\<open>Array.prototype.sort\<close> is stable).
  The result is \<open>None\<close> if one of the loops does not return.
\<close>

definition findProtectedRanges :: "jsstring \<Rightarrow> (nat \<times> nat) list option" where
  "findProtectedRanges text =
     map_option (\<lambda>rs. sort_key fst (concat rs))
       (those (map (\<lambda>pattern. exec_all noflags pattern text 0) PROTECTED_PATTERNS))"

definition isProtected :: "nat \<Rightarrow> (nat \<times> nat) list \<Rightarrow> bool" where
  "isProtected pos ranges = list_ex (\<lambda>(s, e). s \<le> pos \<and> pos < e) ranges"

section \<open>The rules\<close>

subsection \<open>Rules for every locale\<close>

text \<open>\<open>common/spaces/double\<close>: \<open>text.replace(/ {2,}/g,
  ' ')\<close>.\<close>

definition removeDoubleSpaces_apply :: "jsstring \<Rightarrow> RuleContext \<Rightarrow> jsstring" where
  "removeDoubleSpaces_apply text ctx =
     replace_g noflags (Rep 2 None True (Chr 0x20)) (template [TLit [0x20]]) text"

definition removeDoubleSpaces :: TypographyRule where
  "removeDoubleSpaces =
     \<lparr>rule_id = ''common/spaces/double'', rule_locale = Common, rule_group = GSpaces,
      enabled = True, priority = 10, rule_apply = removeDoubleSpaces_apply\<rparr>"

text \<open>\<open>common/special/symbols\<close>: \<open>/\(c\)/gi\<close>,
  \<open>/\(r\)/gi\<close>, \<open>/\(tm\)/gi\<close> become the
  copyright, registered and trade mark signs.\<close>

definition specialSymbols_apply :: "jsstring \<Rightarrow> RuleContext \<Rightarrow> jsstring" where
  "specialSymbols_apply text ctx =
     replace_g flag_i (Str [0x28, 0x74, 0x6D, 0x29]) (template [TLit [0x2122]])
       (replace_g flag_i (Str [0x28, 0x72, 0x29]) (template [TLit [0xAE]])
         (replace_g flag_i (Str [0x28, 0x63, 0x29]) (template [TLit [0xA9]]) text))"

definition specialSymbols :: TypographyRule where
  "specialSymbols =
     \<lparr>rule_id = ''common/special/symbols'', rule_locale = Common, rule_group = GSpecial,
      enabled = True, priority = 20, rule_apply = specialSymbols_apply\<rparr>"

text \<open>\<open>common/special/plusminus\<close>: \<open>text.replace(/\+-/g,
  '\u00B1')\<close>.\<close>

definition plusMinus_apply :: "jsstring \<Rightarrow> RuleContext \<Rightarrow> jsstring" where
  "plusMinus_apply text ctx = replace_g noflags (Str [0x2B,
    0x2D]) (template [TLit [0xB1]]) text"

definition plusMinus :: TypographyRule where
  "plusMinus =
     \<lparr>rule_id = ''common/special/plusminus'', rule_locale = Common,
       rule_group = GSpecial,
      enabled = True, priority = 21, rule_apply = plusMinus_apply\<rparr>"

text \<open>\<open>common/punctuation/ellipsis\<close>: \<open>text.replace(/\.{2,}/g,
  '\u2026')\<close>.\<close>

definition ellipsis_apply :: "jsstring \<Rightarrow> RuleContext \<Rightarrow> jsstring" where
  "ellipsis_apply text ctx =
     replace_g noflags (Rep 2 None True (Chr 0x2E)) (template [TLit [0x2026]]) text"

definition ellipsis :: TypographyRule where
  "ellipsis =
     \<lparr>rule_id = ''common/punctuation/ellipsis'', rule_locale = Common,
      rule_group = GPunctuation, enabled = True, priority = 15,
        rule_apply = ellipsis_apply\<rparr>"

text \<open>\<open>common/punctuation/duplicates\<close>: \<open>/\s*!+\s*\?+/g\<close> and \<open>/\s*\?+\s*!+/g\<close> become
  \<open>?!\<close>, then \<open>/([?!,;:])\1+/g\<close> becomes \<open>$1\<close>.\<close>

definition duplicatePunctuation_apply :: "jsstring \<Rightarrow> RuleContext \<Rightarrow> jsstring" where
  "duplicatePunctuation_apply text ctx =
     (let result = text;
          result = replace_g noflags
                     (Seqs [Star re_s, Plus (Chr 0x21), Star re_s, Plus (Chr 0x3F)])
                     (template [TLit [0x3F, 0x21]]) result;
          result = replace_g noflags
                     (Seqs [Star re_s, Plus (Chr 0x3F), Star re_s, Plus (Chr 0x21)])
                     (template [TLit [0x3F, 0x21]]) result;
          result = replace_g noflags
                     (Seq (Grp 1 (Cls False [CChar 0x3F, CChar 0x21, CChar 0x2C,
                                             CChar 0x3B, CChar 0x3A]))
                          (Plus (Bref 1)))
                     (template [TGrp 1]) result
      in result)"

definition duplicatePunctuation :: TypographyRule where
  "duplicatePunctuation =
     \<lparr>rule_id = ''common/punctuation/duplicates'', rule_locale = Common,
      rule_group = GPunctuation, enabled = True, priority = 12,
      rule_apply = duplicatePunctuation_apply\<rparr>"

text \<open>
  \<open>common/layout/orphan\<close>: each line of the text has its trailing white space set
  aside and is split at the ordinary spaces; with three tokens or more the last two are
  joined by a no-break space.
\<close>

definition nbspOrphan_line :: "jsstring \<Rightarrow> jsstring" where
  "nbspOrphan_line line =
     (let trimmed = trimEnd line;
          trailingWs = drop (length trimmed) line;
          tokens = js_split trimmed 0x20
      in if length tokens < 3 then line
         else
           let tail = drop (length tokens - 2) tokens;
               tokens = take (length tokens - 2) tokens
           in js_join tokens [0x20] @ [0x20] @ js_join tail [0xA0] @ trailingWs)"

definition nbspOrphan_apply :: "jsstring \<Rightarrow> RuleContext \<Rightarrow> jsstring" where
  "nbspOrphan_apply text ctx = js_join (map nbspOrphan_line (js_split text 0x0A)) [0x0A]"

definition nbspOrphan :: TypographyRule where
  "nbspOrphan =
     \<lparr>rule_id = ''common/layout/orphan'', rule_locale = Common, rule_group = GLayout,
      enabled = False, priority = 900, rule_apply = nbspOrphan_apply\<rparr>"

text \<open>The list exported by the index of the common rules.\<close>

definition commonRules :: "TypographyRule list" where
  "commonRules = [removeDoubleSpaces, specialSymbols, plusMinus, ellipsis,
    duplicatePunctuation]"

subsection \<open>Russian rules\<close>

text \<open>
  \<open>ru/case/capslock\<close>. A text with at least 20 letters of which at least 70 percent are
  capitals is put in lower case, the first letter and the letters after
  \<open>/([.!?\u2026]\s+)([\u0430-\u044F\u0451a-z])/g\<close> are capitalised,
    and the known abbreviations,
  matched by \<open>\b(...)\b\<close> with \<open>gi\<close>, are restored from the table.
\<close>

definition CASE_ABBREVIATIONS :: "(jsstring \<times> jsstring) list" where
  "CASE_ABBREVIATIONS =
     [([0x441, 0x441, 0x441, 0x440], [0x421, 0x421, 0x421, 0x420]), ([0x433, 0x43E, 0x441,
       0x442], [0x413, 0x41E, 0x421, 0x422]), ([0x441, 0x448, 0x430], [0x421, 0x428,
       0x410]), ([0x440, 0x444], [0x420, 0x424]), ([0x441, 0x43D, 0x433], [0x421, 0x41D,
       0x413]), ([0x43E, 0x43E, 0x43E], [0x41E, 0x41E, 0x41E]), ([0x43F, 0x430, 0x43E],
       [0x41F, 0x410, 0x41E]), ([0x437, 0x430, 0x43E], [0x417, 0x410, 0x41E]), ([0x43E,
       0x430, 0x43E], [0x41E, 0x410, 0x41E]), ([0x441, 0x43C, 0x441], [0x421, 0x41C,
       0x421]), ([0x63, 0x76, 0x76], [0x43, 0x56, 0x56]), ([0x63, 0x76, 0x63], [0x43, 0x56,
       0x43]), ([0x71, 0x72, 0x2D, 0x43A, 0x43E, 0x434], [0x51, 0x52, 0x2D, 0x43A, 0x43E,
       0x434]), ([0x43F, 0x438, 0x43D, 0x2D, 0x43A, 0x43E, 0x434], [0x41F, 0x418, 0x41D,
       0x2D, 0x43A, 0x43E, 0x434]), ([0x77, 0x69, 0x2D, 0x66, 0x69], [0x57, 0x69, 0x2D,
       0x46, 0x69]), ([0x444, 0x433, 0x43E, 0x441], [0x424, 0x413, 0x41E, 0x421]), ([0x43C,
       0x432, 0x434], [0x41C, 0x412, 0x414]), ([0x444, 0x441, 0x431], [0x424, 0x421,
       0x411]), ([0x433, 0x438, 0x431, 0x434, 0x434], [0x413, 0x418, 0x411, 0x414, 0x414]),
       ([0x43C, 0x447, 0x441], [0x41C, 0x427, 0x421]), ([0x444, 0x43D, 0x441], [0x424,
       0x41D, 0x421]), ([0x43D, 0x434, 0x441], [0x41D, 0x414, 0x421]), ([0x43D, 0x43A,
       0x43E], [0x41D, 0x41A, 0x41E]), ([0x438, 0x43F], [0x418, 0x41F]), ([0x438, 0x43D,
       0x43D], [0x418, 0x41D, 0x41D]), ([0x43E, 0x433, 0x440, 0x43D], [0x41E, 0x413, 0x420,
       0x41D]), ([0x43A, 0x43F, 0x43F], [0x41A, 0x41F, 0x41F]), ([0x75, 0x72, 0x6C], [0x55,
       0x52, 0x4C]), ([0x61, 0x70, 0x69], [0x41, 0x50, 0x49]), ([0x68, 0x74, 0x6D, 0x6C],
       [0x48, 0x54, 0x4D, 0x4C]), ([0x63, 0x73, 0x73], [0x43, 0x53, 0x53]), ([0x70, 0x64,
       0x66], [0x50, 0x44, 0x46]), ([0x75, 0x73, 0x62], [0x55, 0x53, 0x42]), ([0x68, 0x64,
       0x6D, 0x69], [0x48, 0x44, 0x4D, 0x49]), ([0x72, 0x61, 0x6D], [0x52, 0x41, 0x4D]),
       ([0x73, 0x73, 0x64], [0x53, 0x53, 0x44]), ([0x68, 0x64, 0x64], [0x48, 0x44, 0x44]),
       ([0x64, 0x70, 0x69], [0x44, 0x50, 0x49]), ([0x66, 0x70, 0x73], [0x46, 0x50, 0x53])]"

text \<open>The callbacks \<open>(_, p1, p2) => p1 + p2.toUpperCase()\<close> and
  \<open>m => ABBREVIATIONS[m.toLowerCase()] || m\<close>.\<close>

definition capitalizeAfter :: replacer where
  "capitalizeAfter mt gs offset = grp gs 1 @ toUpperCase (grp gs 2)"

definition restoreAbbreviation :: replacer where
  "restoreAbbreviation mt gs offset =
     (case map_of CASE_ABBREVIATIONS (toLowerCase mt) of Some v \<Rightarrow> v | None \<Rightarrow> mt)"

definition ruFixCase_apply :: "jsstring \<Rightarrow> RuleContext \<Rightarrow> jsstring" where
  "ruFixCase_apply text ctx =
     (let letters = match_g noflags
                      (Cls False (cyr @ [CRange 0x61 0x7A, CRange 0x41 0x5A])) text
      in if letters = [] \<or> length letters < 20 then text
         else
           let uppercaseLetters =
                 match_g noflags
                   (Cls False [CRange 0x410 0x42F, CChar 0x401, CRange 0x41 0x5A]) text
           in if real (length uppercaseLetters) / real (length letters) < 0.7 then text
              else
                let result = toLowerCase text;
                    result = toUpperCase (take 1 result) @ drop 1 result;
                    result = replace_g noflags
                               (Seq (Grp 1 (Seq (Cls False [CChar 0x2E, CChar 0x21, CChar 0x3F,
                                                            CChar 0x2026])
                                                (Plus re_s)))
                                    (Grp 2 (Cls False [CRange 0x430 0x44F, CChar 0x451,
                                                       CRange 0x61 0x7A])))
                               capitalizeAfter result;
                    result = replace_g flag_i
                               (Seqs [WordB,
                                 Grp 1 (Alts (map Str (map fst CASE_ABBREVIATIONS))),
                                      WordB])
                               restoreAbbreviation result
                in result)"

definition ruFixCase :: TypographyRule where
  "ruFixCase =
     \<lparr>rule_id = ''ru/case/capslock'', rule_locale = Ru, rule_group = GCase,
      enabled = True, priority = 5, rule_apply = ruFixCase_apply\<rparr>"

text \<open>
  \<open>ru/yo/basic\<close>. For every entry of the dictionary whose two sides differ, the word
  \<open>(?<![\u0430-\u044F\u0410-\u042F\u0451\u0401])from(?![\u0430-\u044F\u0410-\u042F\u0451\u0401])\<close> is replaced,
    then its capitalised form.
\<close>

definition YO_DICTIONARY :: "(jsstring \<times> jsstring) list" where
  "YO_DICTIONARY =
     [([0x435, 0x449, 0x435], [0x435, 0x449, 0x451]), ([0x43C, 0x43E, 0x435, 0x43C],
       [0x43C, 0x43E, 0x451, 0x43C]), ([0x442, 0x432, 0x43E, 0x435, 0x43C], [0x442, 0x432,
       0x43E, 0x451, 0x43C]), ([0x441, 0x432, 0x43E, 0x435, 0x43C], [0x441, 0x432, 0x43E,
       0x451, 0x43C]), ([0x447, 0x435, 0x43C], [0x447, 0x451, 0x43C]), ([0x435, 0x43B,
       0x43A, 0x430], [0x451, 0x43B, 0x43A, 0x430]), ([0x435, 0x43B, 0x43A, 0x438], [0x451,
       0x43B, 0x43A, 0x438]), ([0x435, 0x43B, 0x43A, 0x443], [0x451, 0x43B, 0x43A, 0x443]),
       ([0x435, 0x43B, 0x43A, 0x43E, 0x439], [0x451, 0x43B, 0x43A, 0x43E, 0x439]), ([0x435,
       0x43B, 0x43A, 0x435], [0x451, 0x43B, 0x43A, 0x435]), ([0x435, 0x43B, 0x43E, 0x43A],
       [0x451, 0x43B, 0x43E, 0x43A]), ([0x435, 0x43B, 0x43E, 0x447, 0x43A, 0x430], [0x451,
       0x43B, 0x43E, 0x447, 0x43A, 0x430]), ([0x435, 0x43B, 0x43E, 0x447, 0x43A, 0x438],
       [0x451, 0x43B, 0x43E, 0x447, 0x43A, 0x438]), ([0x435, 0x43B, 0x43E, 0x447, 0x43A,
       0x443], [0x451, 0x43B, 0x43E, 0x447, 0x43A, 0x443]), ([0x431, 0x435, 0x440, 0x451,
       0x437, 0x430], [0x431, 0x435, 0x440, 0x451, 0x437, 0x430]), ([0x43C, 0x435, 0x434],
       [0x43C, 0x451, 0x434]), ([0x43C, 0x435, 0x434, 0x430], [0x43C, 0x451, 0x434, 0x430]),
       ([0x43C, 0x435, 0x434, 0x43E, 0x43C], [0x43C, 0x451, 0x434, 0x43E, 0x43C]), ([0x43B,
       0x435, 0x434], [0x43B, 0x451, 0x434]), ([0x43B, 0x44C, 0x434, 0x430], [0x43B, 0x44C,
       0x434, 0x430]), ([0x43B, 0x435, 0x43D], [0x43B, 0x451, 0x43D]), ([0x448, 0x435,
       0x43B], [0x448, 0x451, 0x43B]), ([0x448, 0x43B, 0x430], [0x448, 0x43B, 0x430]),
       ([0x437, 0x435, 0x43B, 0x435, 0x43D, 0x44B, 0x439], [0x437, 0x435, 0x43B, 0x451,
       0x43D, 0x44B, 0x439]), ([0x437, 0x435, 0x43B, 0x435, 0x43D, 0x430, 0x44F], [0x437,
       0x435, 0x43B, 0x451, 0x43D, 0x430, 0x44F]), ([0x437, 0x435, 0x43B, 0x435, 0x43D,
       0x43E, 0x435], [0x437, 0x435, 0x43B, 0x451, 0x43D, 0x43E, 0x435]), ([0x437, 0x435,
       0x43B, 0x435, 0x43D, 0x44B, 0x435], [0x437, 0x435, 0x43B, 0x451, 0x43D, 0x44B,
       0x435]), ([0x447, 0x435, 0x440, 0x43D, 0x44B, 0x439], [0x447, 0x451, 0x440, 0x43D,
       0x44B, 0x439]), ([0x447, 0x435, 0x440, 0x43D, 0x430, 0x44F], [0x447, 0x451, 0x440,
       0x43D, 0x430, 0x44F]), ([0x447, 0x435, 0x440, 0x43D, 0x43E, 0x435], [0x447, 0x451,
       0x440, 0x43D, 0x43E, 0x435]), ([0x447, 0x435, 0x440, 0x43D, 0x44B, 0x435], [0x447,
       0x451, 0x440, 0x43D, 0x44B, 0x435]), ([0x436, 0x435, 0x43B, 0x442, 0x44B, 0x439],
       [0x436, 0x451, 0x43B, 0x442, 0x44B, 0x439]), ([0x436, 0x435, 0x43B, 0x442, 0x430,
       0x44F], [0x436, 0x451, 0x43B, 0x442, 0x430, 0x44F]), ([0x436, 0x435, 0x43B, 0x442,
       0x43E, 0x435], [0x436, 0x451, 0x43B, 0x442, 0x43E, 0x435]), ([0x436, 0x435, 0x43B,
       0x442, 0x44B, 0x435], [0x436, 0x451, 0x43B, 0x442, 0x44B, 0x435]), ([0x442, 0x451,
       0x43C, 0x43D, 0x44B, 0x439], [0x442, 0x451, 0x43C, 0x43D, 0x44B, 0x439]), ([0x442,
       0x435, 0x43C, 0x43D, 0x44B, 0x439], [0x442, 0x451, 0x43C, 0x43D, 0x44B, 0x439]),
       ([0x442, 0x435, 0x43C, 0x43D, 0x430, 0x44F], [0x442, 0x451, 0x43C, 0x43D, 0x430,
       0x44F]), ([0x442, 0x435, 0x43C, 0x43D, 0x43E, 0x435], [0x442, 0x451, 0x43C, 0x43D,
       0x43E, 0x435]), ([0x442, 0x435, 0x43C, 0x43D, 0x44B, 0x435], [0x442, 0x451, 0x43C,
       0x43D, 0x44B, 0x435]), ([0x440, 0x435, 0x431, 0x435, 0x43D, 0x43E, 0x43A], [0x440,
       0x435, 0x431, 0x451, 0x43D, 0x43E, 0x43A]), ([0x440, 0x435, 0x431, 0x435, 0x43D,
       0x43A, 0x430], [0x440, 0x435, 0x431, 0x451, 0x43D, 0x43A, 0x430]), ([0x440, 0x435,
       0x431, 0x435, 0x43D, 0x43A, 0x443], [0x440, 0x435, 0x431, 0x451, 0x43D, 0x43A,
       0x443]), ([0x440, 0x435, 0x431, 0x435, 0x43D, 0x43A, 0x43E, 0x43C], [0x440, 0x435,
       0x431, 0x451, 0x43D, 0x43A, 0x43E, 0x43C]), ([0x43F, 0x440, 0x438, 0x451, 0x43C],
       [0x43F, 0x440, 0x438, 0x451, 0x43C]), ([0x43F, 0x440, 0x438, 0x435, 0x43C], [0x43F,
       0x440, 0x438, 0x451, 0x43C]), ([0x43F, 0x440, 0x438, 0x435, 0x43C, 0x430], [0x43F,
       0x440, 0x438, 0x451, 0x43C, 0x430]), ([0x43F, 0x440, 0x438, 0x435, 0x43C, 0x443],
       [0x43F, 0x440, 0x438, 0x451, 0x43C, 0x443]), ([0x43F, 0x440, 0x438, 0x435, 0x43C,
       0x43E, 0x43C], [0x43F, 0x440, 0x438, 0x451, 0x43C, 0x43E, 0x43C]), ([0x43F, 0x43E,
       0x434, 0x44A, 0x435, 0x43C], [0x43F, 0x43E, 0x434, 0x44A, 0x451, 0x43C]), ([0x43F,
       0x43E, 0x434, 0x44A, 0x435, 0x43C, 0x430], [0x43F, 0x43E, 0x434, 0x44A, 0x451, 0x43C,
       0x430]), ([0x443, 0x447, 0x435, 0x442], [0x443, 0x447, 0x451, 0x442]), ([0x443,
       0x447, 0x435, 0x442, 0x430], [0x443, 0x447, 0x451, 0x442, 0x430]), ([0x443, 0x447,
       0x435, 0x442, 0x43E, 0x43C], [0x443, 0x447, 0x451, 0x442, 0x43E, 0x43C]), ([0x443,
       0x447, 0x435, 0x43D, 0x44B, 0x439], [0x443, 0x447, 0x451, 0x43D, 0x44B, 0x439]),
       ([0x443, 0x447, 0x435, 0x43D, 0x43E, 0x433, 0x43E], [0x443, 0x447, 0x451, 0x43D,
       0x43E, 0x433, 0x43E]), ([0x440, 0x430, 0x441, 0x447, 0x435, 0x442], [0x440, 0x430,
       0x441, 0x447, 0x451, 0x442]), ([0x440, 0x430, 0x441, 0x447, 0x435, 0x442, 0x430],
       [0x440, 0x430, 0x441, 0x447, 0x451, 0x442, 0x430]), ([0x440, 0x430, 0x441, 0x447,
       0x435, 0x442, 0x43E, 0x43C], [0x440, 0x430, 0x441, 0x447, 0x451, 0x442, 0x43E,
       0x43C]), ([0x441, 0x447, 0x435, 0x442], [0x441, 0x447, 0x451, 0x442]), ([0x441,
       0x447, 0x435, 0x442, 0x430], [0x441, 0x447, 0x451, 0x442, 0x430]), ([0x43F, 0x43E,
       0x43B, 0x435, 0x442], [0x43F, 0x43E, 0x43B, 0x451, 0x442]), ([0x43F, 0x43E, 0x43B,
       0x435, 0x442, 0x430], [0x43F, 0x43E, 0x43B, 0x451, 0x442, 0x430]), ([0x441, 0x430,
       0x43C, 0x43E, 0x43B, 0x435, 0x442], [0x441, 0x430, 0x43C, 0x43E, 0x43B, 0x451,
       0x442]), ([0x441, 0x430, 0x43C, 0x43E, 0x43B, 0x435, 0x442, 0x430], [0x441, 0x430,
       0x43C, 0x43E, 0x43B, 0x451, 0x442, 0x430]), ([0x442, 0x440, 0x435, 0x445], [0x442,
       0x440, 0x451, 0x445]), ([0x442, 0x440, 0x435, 0x445, 0x43A, 0x43E, 0x43C, 0x43D,
       0x430, 0x442, 0x43D, 0x44B, 0x439], [0x442, 0x440, 0x451, 0x445, 0x43A, 0x43E, 0x43C,
       0x43D, 0x430, 0x442, 0x43D, 0x44B, 0x439]), ([0x447, 0x435, 0x442, 0x44B, 0x440,
       0x435, 0x445], [0x447, 0x435, 0x442, 0x44B, 0x440, 0x451, 0x445]), ([0x438, 0x434,
       0x435, 0x442], [0x438, 0x434, 0x451, 0x442]), ([0x43F, 0x43E, 0x439, 0x434, 0x435,
       0x442], [0x43F, 0x43E, 0x439, 0x434, 0x451, 0x442]), ([0x43D, 0x430, 0x439, 0x434,
       0x435, 0x442], [0x43D, 0x430, 0x439, 0x434, 0x451, 0x442]), ([0x434, 0x430, 0x435,
       0x442], [0x434, 0x430, 0x451, 0x442]), ([0x437, 0x430, 0x434, 0x430, 0x435, 0x442],
       [0x437, 0x430, 0x434, 0x430, 0x451, 0x442]), ([0x43F, 0x435, 0x440, 0x435, 0x434,
       0x430, 0x435, 0x442], [0x43F, 0x435, 0x440, 0x435, 0x434, 0x430, 0x451, 0x442]),
       ([0x431, 0x435, 0x440, 0x435, 0x442], [0x431, 0x435, 0x440, 0x451, 0x442]), ([0x43D,
       0x435, 0x441, 0x435, 0x442], [0x43D, 0x435, 0x441, 0x451, 0x442]), ([0x432, 0x435,
       0x434, 0x435, 0x442], [0x432, 0x435, 0x434, 0x451, 0x442]), ([0x432, 0x435, 0x437,
       0x435, 0x442], [0x432, 0x435, 0x437, 0x451, 0x442]), ([0x442, 0x435, 0x447, 0x435,
       0x442], [0x442, 0x435, 0x447, 0x451, 0x442]), ([0x43F, 0x435, 0x447, 0x435, 0x442],
       [0x43F, 0x435, 0x447, 0x451, 0x442]), ([0x436, 0x436, 0x435, 0x442], [0x436, 0x436,
       0x451, 0x442]), ([0x436, 0x443, 0x435, 0x442], [0x436, 0x443, 0x451, 0x442]),
       ([0x43A, 0x43B, 0x44E, 0x435, 0x442], [0x43A, 0x43B, 0x44E, 0x451, 0x442]), ([0x43F,
       0x43E, 0x435, 0x442], [0x43F, 0x43E, 0x451, 0x442]), ([0x43F, 0x440, 0x438, 0x448,
       0x435, 0x43B], [0x43F, 0x440, 0x438, 0x448, 0x451, 0x43B]), ([0x443, 0x448, 0x435,
       0x43B], [0x443, 0x448, 0x451, 0x43B]), ([0x43D, 0x430, 0x448, 0x435, 0x43B], [0x43D,
       0x430, 0x448, 0x451, 0x43B]), ([0x437, 0x430, 0x448, 0x435, 0x43B], [0x437, 0x430,
       0x448, 0x451, 0x43B]), ([0x432, 0x44B, 0x448, 0x435, 0x43B], [0x432, 0x44B, 0x448,
       0x451, 0x43B]), ([0x43F, 0x43E, 0x434, 0x43E, 0x448, 0x435, 0x43B], [0x43F, 0x43E,
       0x434, 0x43E, 0x448, 0x451, 0x43B]), ([0x43F, 0x435, 0x440, 0x435, 0x448, 0x435,
       0x43B], [0x43F, 0x435, 0x440, 0x435, 0x448, 0x451, 0x43B]), ([0x43E, 0x431, 0x43E,
       0x448, 0x435, 0x43B], [0x43E, 0x431, 0x43E, 0x448, 0x451, 0x43B])]"

definition effectiveEntries :: "(jsstring \<times> jsstring) list" where
  "effectiveEntries = filter (\<lambda>(from, to). from \<noteq> to) YO_DICTIONARY"

definition yoWord :: "jsstring \<Rightarrow> regex" where
  "yoWord w = Seqs [LookB False False cyr, Str w, Look False (Cls False cyr)]"

definition ruYo_step :: "jsstring \<Rightarrow> jsstring \<times> jsstring \<Rightarrow> jsstring" where
  "ruYo_step result entry =
     (let from = fst entry; to = snd entry;
          result = replace_g noflags (yoWord from) (template [TLit to]) result;
          capitalFrom = toUpperCase (take 1 from) @ drop 1 from;
          capitalTo = toUpperCase (take 1 to) @ drop 1 to
      in if capitalFrom \<noteq> capitalTo
         then replace_g noflags (yoWord capitalFrom) (template [TLit capitalTo]) result
         else result)"

definition ruYo_apply :: "jsstring \<Rightarrow> RuleContext \<Rightarrow> jsstring" where
  "ruYo_apply text ctx = foldl ruYo_step text effectiveEntries"

definition ruYo :: TypographyRule where
  "ruYo =
     \<lparr>rule_id = ''ru/yo/basic'', rule_locale = Ru, rule_group = GYo,
      enabled = True, priority = 25, rule_apply = ruYo_apply\<rparr>"

text \<open>
  \<open>ru/quotes/guillemets\<close>. Every quote of \<open>/[\u00AB\u00BB\u201E"""\u201C\u201D\u201E]/g\<close> becomes the
  straight quote; then the code points are scanned from left to right with a depth
  counter. \<open>ruQuotes_step\<close> is the body of the loop \<open>for (let i = 0; i < chars.length; i++)\<close>
  on the pair of \<open>output\<close> and \<open>depth\<close>; the context test is \<open>/[\s(\[{]/\<close>. The constant
  \<open>after\<close> of the source is never read and is left out.
\<close>

definition quoteVariants :: regex where
  "quoteVariants =
     Cls False [CChar 0xAB, CChar 0xBB, CChar 0x201E, CChar 0x22, CChar 0x22, CChar 0x22,
                CChar 0x201C, CChar 0x201D, CChar 0x201E]"

definition openingContext :: regex where
  "openingContext = Cls False [CSpace, CChar 0x28, CChar 0x5B, CChar 0x7B]"

definition ruQuotes_step :: "jsstring list \<Rightarrow> jsstring list \<times> int \<Rightarrow> nat \<Rightarrow> jsstring list \<times> int" where
  "ruQuotes_step chars st i =
     (let output = fst st; depth = snd st
      in if chars ! i = [0x22] then
           let beforeCh = (if i > 0 then chars ! (i - 1) else [0x20]);
               isOpening = (re_test noflags openingContext beforeCh \<or> i = 0);
               isOpeningAfterQuote = (beforeCh = [0xAB] \<or> beforeCh = [0x201E])
           in if isOpening \<or> isOpeningAfterQuote then
                (if depth = 0 then (output @ [[0xAB]], depth + 1)
                 else (output @ [[0x201E]], depth + 1))
              else
                (if depth - 1 \<le> 0 then (output @ [[0xBB]], 0)
                 else (output @ [[0x22]], depth - 1))
         else (output @ [chars ! i], depth))"

definition ruQuotes_apply :: "jsstring \<Rightarrow> RuleContext \<Rightarrow> jsstring" where
  "ruQuotes_apply text ctx =
     (let result = replace_g noflags quoteVariants (template [TLit [0x22]]) text;
          chars = spread result
      in concat (fst (foldl (ruQuotes_step chars) ([], 0) [0..<length chars])))"

definition ruQuotes :: TypographyRule where
  "ruQuotes =
     \<lparr>rule_id = ''ru/quotes/guillemets'', rule_locale = Ru, rule_group = GQuotes,
      enabled = True, priority = 30, rule_apply = ruQuotes_apply\<rparr>"

text \<open>\<open>ru/dashes/endash\<close>: \<open>/(\d+)\s*-\s*(\d+)/g\<close> and \<open>/([IVXLCDM]+)\s*-\s*([IVXLCDM]+)/g\<close>
  become \<open>$1\u2013$2\<close>.\<close>

definition numberRange :: regex where
  "numberRange = Seqs [Grp 1 (Plus re_d), Star re_s, Chr 0x2D, Star re_s, Grp 2 (Plus re_d)]"

definition roman :: regex where
  "roman = Cls False [CChar 0x49, CChar 0x56, CChar 0x58, CChar 0x4C, CChar 0x43,
    CChar 0x44, CChar 0x4D]"

definition ruEnDash_apply :: "jsstring \<Rightarrow> RuleContext \<Rightarrow> jsstring" where
  "ruEnDash_apply text ctx =
     (let result = text;
          result = replace_g noflags numberRange (template [TGrp 1, TLit [0x2013],
            TGrp 2]) result;
          result = replace_g noflags
                     (Seqs [Grp 1 (Plus roman), Star re_s, Chr 0x2D, Star re_s,
                       Grp 2 (Plus roman)])
                     (template [TGrp 1, TLit [0x2013], TGrp 2]) result
      in result)"

definition ruEnDash :: TypographyRule where
  "ruEnDash =
     \<lparr>rule_id = ''ru/dashes/endash'', rule_locale = Ru, rule_group = GDashes,
      enabled = True, priority = 35, rule_apply = ruEnDash_apply\<rparr>"

text \<open>\<open>ru/dashes/emdash\<close>: \<open>/(?<=\S) - (?=\S)/g\<close> becomes \<open>' \u2014 '\<close>.\<close>

definition phraseDash :: regex where
  "phraseDash = Seqs [LookB True False [CNotSpace], Str [0x20, 0x2D, 0x20], Look True re_S]"

definition ruEmDash_apply :: "jsstring \<Rightarrow> RuleContext \<Rightarrow> jsstring" where
  "ruEmDash_apply text ctx = replace_g noflags phraseDash (template [TLit [0x20, 0x2014,
    0x20]]) text"

definition ruEmDash :: TypographyRule where
  "ruEmDash =
     \<lparr>rule_id = ''ru/dashes/emdash'', rule_locale = Ru, rule_group = GDashes,
      enabled = True, priority = 36, rule_apply = ruEmDash_apply\<rparr>"

text \<open>
  \<open>ru/spaces/shortwords\<close>. \<open>((?:^|\s)(?:words)) \<close> with \<open>gi\<close> becomes \<open>$1\<close> and a no-break
  space; two more passes use \<open>((?:^|[\s\u00A0])(?:words)) \<close>.
\<close>

definition SHORT_WORDS :: "jsstring list" where
  "SHORT_WORDS =
     [[0x430], [0x431], [0x431, 0x435, 0x437], [0x431, 0x435, 0x437, 0x43E], [0x431,
       0x443, 0x434, 0x442, 0x43E], [0x431, 0x44B], [0x432], [0x432, 0x43E], [0x432, 0x435,
       0x434, 0x44C], [0x432, 0x43D, 0x435], [0x432, 0x43E, 0x442], [0x433, 0x434, 0x435],
       [0x434, 0x430], [0x434, 0x430, 0x436, 0x435], [0x434, 0x43B, 0x44F], [0x434, 0x43E],
       [0x435, 0x441, 0x43B, 0x438], [0x435, 0x441, 0x442, 0x44C], [0x436], [0x436, 0x435],
       [0x437, 0x430], [0x438], [0x438, 0x437], [0x438, 0x437, 0x43E], [0x438, 0x437, 0x2D,
       0x437, 0x430], [0x438, 0x437, 0x2D, 0x43F, 0x43E, 0x434], [0x438, 0x43B, 0x438],
       [0x438, 0x43B, 0x44C], [0x43A], [0x43A, 0x43E], [0x43A, 0x430, 0x43A], [0x43B,
       0x438], [0x43B, 0x44C], [0x43B, 0x438, 0x431, 0x43E], [0x43C, 0x435, 0x436, 0x434,
       0x443], [0x43D, 0x430], [0x43D, 0x430, 0x434], [0x43D, 0x430, 0x434, 0x43E], [0x43D,
       0x435], [0x43D, 0x438], [0x43D, 0x43E], [0x43E], [0x43E, 0x431], [0x43E, 0x431,
       0x43E], [0x43E, 0x43A, 0x43E, 0x43B, 0x43E], [0x43E, 0x442], [0x43E, 0x442, 0x43E],
       [0x43F, 0x435, 0x440, 0x435, 0x434], [0x43F, 0x43E], [0x43F, 0x43E, 0x2D, 0x437,
       0x430], [0x43F, 0x43E, 0x2D, 0x43D, 0x430, 0x434], [0x43F, 0x43E, 0x434], [0x43F,
       0x43E, 0x434, 0x43E], [0x43F, 0x43E, 0x441, 0x43B, 0x435], [0x43F, 0x440, 0x438],
       [0x43F, 0x440, 0x43E], [0x440, 0x430, 0x434, 0x438], [0x441], [0x441, 0x43E], [0x441,
       0x43A, 0x432, 0x43E, 0x437, 0x44C], [0x442, 0x430, 0x43A], [0x442, 0x430, 0x43A,
       0x436, 0x435], [0x442, 0x430, 0x43C], [0x442, 0x435, 0x43C], [0x442, 0x43E], [0x442,
       0x43E, 0x433, 0x434, 0x430], [0x442, 0x43E, 0x433, 0x43E], [0x442, 0x43E, 0x436,
       0x435], [0x443], [0x445, 0x43E, 0x442, 0x44C], [0x445, 0x43E, 0x442, 0x44F], [0x447,
       0x435, 0x433, 0x43E], [0x447, 0x435, 0x440, 0x435, 0x437], [0x447, 0x442, 0x43E],
       [0x447, 0x442, 0x43E, 0x431, 0x44B], [0x44D, 0x442, 0x43E]]"

definition shortWordsPattern :: regex where
  "shortWordsPattern = Alts (map Str SHORT_WORDS)"

definition ruShortWords_pass :: "jsstring \<Rightarrow> nat \<Rightarrow> jsstring" where
  "ruShortWords_pass result i =
     replace_g flag_i
       (Seq (Grp 1 (Seq (Alt Bol (Cls False [CSpace,
         CChar NBSP])) shortWordsPattern)) (Chr 0x20))
       (template [TGrp 1, TLit [NBSP]]) result"

definition ruShortWords_apply :: "jsstring \<Rightarrow> RuleContext \<Rightarrow> jsstring" where
  "ruShortWords_apply text ctx =
     (let result = text;
          result = replace_g flag_i
                     (Seq (Grp 1 (Seq (Alt Bol re_s) shortWordsPattern)) (Chr 0x20))
                     (template [TGrp 1, TLit [NBSP]]) result
      in foldl ruShortWords_pass result [0..<2])"

definition ruShortWords :: TypographyRule where
  "ruShortWords =
     \<lparr>rule_id = ''ru/spaces/shortwords'', rule_locale = Ru, rule_group = GSpaces,
      enabled = True, priority = 50, rule_apply = ruShortWords_apply\<rparr>"

text \<open>\<open>ru/spaces/emdash\<close>: \<open>/ \u2014/g\<close> becomes a no-break space and the dash.\<close>

definition ruEmDashSpace_apply :: "jsstring \<Rightarrow> RuleContext \<Rightarrow> jsstring" where
  "ruEmDashSpace_apply text ctx =
     replace_g noflags (Str [0x20, 0x2014]) (template [TLit [NBSP, 0x2014]]) text"

definition ruEmDashSpace :: TypographyRule where
  "ruEmDashSpace =
     \<lparr>rule_id = ''ru/spaces/emdash'', rule_locale = Ru, rule_group = GSpaces,
      enabled = True, priority = 51, rule_apply = ruEmDashSpace_apply\<rparr>"

text \<open>
  \<open>ru/spaces/initials\<close>:
  \<open>/([\u0410-\u042F]\.)\s*([\u0410-\u042F]\.)\s+([\u0410-\u042F][\u0430-\u044F\u0451\u0401-]+)/g\<close> becomes \<open>$1$2\u00A0$3\<close> and
  \<open>/([\u0410-\u042F][\u0430-\u044F\u0451\u0401-]+)\s+([\u0410-\u042F]\.)\s*([\u0410-\u042F]\.)/g\<close> becomes \<open>$1\u00A0$2$3\<close>.
\<close>

definition initial :: regex where
  "initial = Seq (Cls False [CRange 0x410 0x42F]) (Chr 0x2E)"

definition surname :: regex where
  "surname =
     Seq (Cls False [CRange 0x410 0x42F])
         (Plus (Cls False [CRange 0x430 0x44F, CChar 0x451, CChar 0x401, CChar 0x2D]))"

definition ruInitials_apply :: "jsstring \<Rightarrow> RuleContext \<Rightarrow> jsstring" where
  "ruInitials_apply text ctx =
     (let result = text;
          result = replace_g noflags
                     (Seqs [Grp 1 initial, Star re_s, Grp 2 initial, Plus re_s, Grp 3 surname])
                     (template [TGrp 1, TGrp 2, TLit [NBSP], TGrp 3]) result;
          result = replace_g noflags
                     (Seqs [Grp 1 surname, Plus re_s, Grp 2 initial, Star re_s, Grp 3 initial])
                     (template [TGrp 1, TLit [NBSP], TGrp 2, TGrp 3]) result
      in result)"

definition ruInitials :: TypographyRule where
  "ruInitials =
     \<lparr>rule_id = ''ru/spaces/initials'', rule_locale = Ru, rule_group = GSpaces,
      enabled = True, priority = 52, rule_apply = ruInitials_apply\<rparr>"

text \<open>\<open>ru/spaces/abbr-patterns\<close>:
  \<open>/\s(\u0438\s\u0442\.\u0434\.|\u0438\s\u0442\.\u043F\.|\u0438\s\u0434\u0440\.)/gi\<close> becomes \<open>\u00A0$1\<close>.\<close>

definition ruAbbreviationPatterns_apply :: "jsstring \<Rightarrow> RuleContext \<Rightarrow> jsstring" where
  "ruAbbreviationPatterns_apply text ctx =
     replace_g flag_i
       (Seq re_s
          (Grp 1 (Alts [Seqs [Chr 0x438, re_s, Str [0x442, 0x2E, 0x434, 0x2E]],
                        Seqs [Chr 0x438, re_s, Str [0x442, 0x2E, 0x43F, 0x2E]],
                        Seqs [Chr 0x438, re_s, Str [0x434, 0x440, 0x2E]]])))
       (template [TLit [NBSP], TGrp 1]) text"

definition ruAbbreviationPatterns :: TypographyRule where
  "ruAbbreviationPatterns =
     \<lparr>rule_id = ''ru/spaces/abbr-patterns'', rule_locale = Ru, rule_group = GSpaces,
      enabled = True, priority = 53, rule_apply = ruAbbreviationPatterns_apply\<rparr>"

text \<open>\<open>ru/spaces/digits-units\<close>: \<open>/(\d)\s+([\u0430-\u044F\u0410-\u042F\u0451\u0401\u00A7\u2116]+)/g\<close> becomes \<open>$1\u00A0$2\<close>.\<close>

definition ruDigitsUnits_apply :: "jsstring \<Rightarrow> RuleContext \<Rightarrow> jsstring" where
  "ruDigitsUnits_apply text ctx =
     replace_g noflags
       (Seqs [Grp 1 re_d, Plus re_s, Grp 2 (Plus (Cls False (cyr @ [CChar 0xA7,
         CChar 0x2116])))])
       (template [TGrp 1, TLit [NBSP], TGrp 2]) text"

definition ruDigitsUnits :: TypographyRule where
  "ruDigitsUnits =
     \<lparr>rule_id = ''ru/spaces/digits-units'', rule_locale = Ru, rule_group = GSpaces,
      enabled = True, priority = 54, rule_apply = ruDigitsUnits_apply\<rparr>"

text \<open>\<open>ru/spaces/dot-abbr\<close>: \<open>(^|\s)(abbreviations)\.\s\<close> with \<open>gi\<close> becomes
  \<open>$1$2.\u00A0\<close>.\<close>

definition ABBREVIATIONS :: "jsstring list" where
  "ABBREVIATIONS =
     [[0x433], [0x43E, 0x431, 0x43B], [0x43A, 0x440], [0x441, 0x442], [0x43F, 0x43E,
       0x441], [0x441], [0x434], [0x443, 0x43B], [0x43F, 0x435, 0x440], [0x43F, 0x440],
       [0x43F, 0x440, 0x2D, 0x442], [0x43F, 0x440, 0x43E, 0x441, 0x43F], [0x43F, 0x43B],
       [0x431, 0x443, 0x43B], [0x431, 0x2D, 0x440], [0x43D, 0x430, 0x431], [0x448], [0x442,
       0x443, 0x43F], [0x43E, 0x444], [0x43A, 0x432], [0x43A, 0x43E, 0x43C, 0x43D], [0x43F,
       0x43E, 0x434], [0x43C, 0x43A, 0x440], [0x443, 0x447], [0x432, 0x43B], [0x432, 0x43B,
       0x430, 0x434], [0x441, 0x442, 0x440], [0x43A, 0x43E, 0x440, 0x43F], [0x43B, 0x438,
       0x442, 0x435, 0x440], [0x44D, 0x442], [0x43F, 0x433, 0x442], [0x433, 0x43B], [0x440,
       0x438, 0x441], [0x438, 0x43B, 0x43B], [0x43F], [0x63]]"

definition ruDotAbbreviations_apply :: "jsstring \<Rightarrow> RuleContext \<Rightarrow> jsstring" where
  "ruDotAbbreviations_apply text ctx =
     (let abbrPattern = Alts (map Str ABBREVIATIONS)
      in replace_g flag_i
           (Seqs [Grp 1 (Alt Bol re_s), Grp 2 abbrPattern, Chr 0x2E, re_s])
           (template [TGrp 1, TGrp 2, TLit [0x2E, NBSP]]) text)"

definition ruDotAbbreviations :: TypographyRule where
  "ruDotAbbreviations =
     \<lparr>rule_id = ''ru/spaces/dot-abbr'', rule_locale = Ru, rule_group = GSpaces,
      enabled = True, priority = 55, rule_apply = ruDotAbbreviations_apply\<rparr>"

text \<open>\<open>ru/spaces/symbols\<close>: \<open>(^|\s)(symbols)\s\<close> with \<open>gi\<close> becomes \<open>$1$2\u00A0\<close>.\<close>

definition SYMBOLS :: "jsstring list" where
  "SYMBOLS = [[0x2116], [0xA7], [0x410, 0x41E], [0x41E, 0x410, 0x41E], [0x417, 0x410,
    0x41E], [0x41E, 0x41E, 0x41E], [0x41F, 0x410, 0x41E]]"

definition ruSymbolSpaces_apply :: "jsstring \<Rightarrow> RuleContext \<Rightarrow> jsstring" where
  "ruSymbolSpaces_apply text ctx =
     (let symbolPattern = Alts (map Str SYMBOLS)
      in replace_g flag_i
           (Seqs [Grp 1 (Alt Bol re_s), Grp 2 symbolPattern, re_s])
           (template [TGrp 1, TGrp 2, TLit [NBSP]]) text)"

definition ruSymbolSpaces :: TypographyRule where
  "ruSymbolSpaces =
     \<lparr>rule_id = ''ru/spaces/symbols'', rule_locale = Ru, rule_group = GSpaces,
      enabled = True, priority = 56, rule_apply = ruSymbolSpaces_apply\<rparr>"

text \<open>\<open>ru/spaces/brackets\<close>: \<open>/([\u00AB\u201E(\[])\s+/g\<close> and \<open>/\s+([.\u2026:,;?!\u00BB")\]])/g\<close>
  become \<open>$1\<close>.\<close>

definition ruBracketSpaces_apply :: "jsstring \<Rightarrow> RuleContext \<Rightarrow> jsstring" where
  "ruBracketSpaces_apply text ctx =
     (let result = text;
          result = replace_g noflags
                     (Seq (Grp 1 (Cls False [CChar 0xAB, CChar 0x201E, CChar 0x28, CChar 0x5B]))
                          (Plus re_s))
                     (template [TGrp 1]) result;
          result = replace_g noflags
                     (Seq (Plus re_s)
                          (Grp 1 (Cls False [CChar 0x2E, CChar 0x2026, CChar 0x3A, CChar 0x2C,
                                             CChar 0x3B, CChar 0x3F, CChar 0x21, CChar 0xBB,
                                             CChar 0x22, CChar 0x29, CChar 0x5D])))
                     (template [TGrp 1]) result
      in result)"

definition ruBracketSpaces :: TypographyRule where
  "ruBracketSpaces =
     \<lparr>rule_id = ''ru/spaces/brackets'', rule_locale = Ru, rule_group = GSpaces,
      enabled = True, priority = 48, rule_apply = ruBracketSpaces_apply\<rparr>"

text \<open>
  \<open>ru/currency/format\<close>, in the order of the source:
  \<open>/(\d+)\s*(?:\u0440\.|\u0440\u0443\u0431\.?)\s*(\d{1,2})\s*\u043A\u043E\u043F\.?/gi\<close> with a callback that pads
  the kopecks to two digits, \<open>/(\d+)\s*(\u0440\u0443\u0431\.?)\s*/gi\<close>,
    \<open>/(\d+)\s*(RUR|RUB)\b/gi\<close>,
  \<open>/(\d+)\s*\u0440\./g\<close>, \<open>/(\d)\s*USD\b/gi\<close>,
    \<open>/(\d)\s*EUR\b/gi\<close> and
  \<open>/(\d)\s*([$\u20AC\u20BD])/g\<close>.
\<close>

text \<open>\<open>k.padStart(2, '0')\<close>.\<close>

definition padStart2 :: "jsstring \<Rightarrow> jsstring" where
  "padStart2 k = (case k of [] \<Rightarrow> [0x30, 0x30] | [a] \<Rightarrow> [0x30,
    a] | _ \<Rightarrow> k)"

definition roublesAndKopecks :: replacer where
  "roublesAndKopecks mt gs offset = grp gs 1 @ [0x2C] @ padStart2 (grp gs 2) @ [NBSP, 0x20BD]"

definition ruCurrency_apply :: "jsstring \<Rightarrow> RuleContext \<Rightarrow> jsstring" where
  "ruCurrency_apply text ctx =
     (let result = text;
          result = replace_g flag_i
                     (Seqs [Grp 1 (Plus re_d), Star re_s,
                            Alt (Str [0x440, 0x2E]) (Seq (Str [0x440, 0x443,
                              0x431]) (Opt (Chr 0x2E))),
                            Star re_s, Grp 2 (Rep 1 (Some 2) True re_d), Star re_s,
                            Str [0x43A, 0x43E, 0x43F], Opt (Chr 0x2E)])
                     roublesAndKopecks
                     result;
          result = replace_g flag_i
                     (Seqs [Grp 1 (Plus re_d), Star re_s,
                            Grp 2 (Seq (Str [0x440, 0x443, 0x431]) (Opt (Chr 0x2E))),
                              Star re_s])
                     (template [TGrp 1, TLit [NBSP, 0x20BD]]) result;
          result = replace_g flag_i
                     (Seqs [Grp 1 (Plus re_d), Star re_s, Grp 2 (Alt (Str [0x52, 0x55,
                       0x52]) (Str [0x52, 0x55, 0x42])), WordB])
                     (template [TGrp 1, TLit [NBSP, 0x20BD]]) result;
          result = replace_g noflags
                     (Seqs [Grp 1 (Plus re_d), Star re_s, Str [0x440, 0x2E]])
                     (template [TGrp 1, TLit [NBSP, 0x20BD]]) result;
          result = replace_g flag_i
                     (Seqs [Grp 1 re_d, Star re_s, Str [0x55, 0x53, 0x44], WordB])
                     (template [TGrp 1, TLit [NBSP, 0x24]]) result;
          result = replace_g flag_i
                     (Seqs [Grp 1 re_d, Star re_s, Str [0x45, 0x55, 0x52], WordB])
                     (template [TGrp 1, TLit [NBSP, 0x20AC]]) result;
          result = replace_g noflags
                     (Seqs [Grp 1 re_d, Star re_s,
                            Grp 2 (Cls False [CChar 0x24, CChar 0x20AC, CChar 0x20BD])])
                     (template [TGrp 1, TLit [NBSP], TGrp 2]) result
      in result)"

definition ruCurrency :: TypographyRule where
  "ruCurrency =
     \<lparr>rule_id = ''ru/currency/format'', rule_locale = Ru, rule_group = GCurrency,
      enabled = True, priority = 60, rule_apply = ruCurrency_apply\<rparr>"

text \<open>
  \<open>ru/numbers/decimals\<close>. \<open>/(\d)\.(\d)/g\<close> with a callback: the match is kept when its
  offset is protected, when a dot follows the match, or when a digit and a dot precede
  it; otherwise the dot becomes a comma.
\<close>

definition decimalPattern :: regex where
  "decimalPattern = Seqs [Grp 1 re_d, Chr 0x2E, Grp 2 re_d]"

definition ruDecimals_callback :: "jsstring \<Rightarrow> RuleContext \<Rightarrow> replacer" where
  "ruDecimals_callback text ctx mt gs offset =
    (if isProtected offset (protectedRanges ctx) then mt
     else
       let afterPos = offset + length mt
       in if afterPos < length text \<and> text ! afterPos = 0x2E then mt
          else if offset \<ge> 2 \<and> text ! (offset - 1) = 0x2E
                  \<and> re_test noflags re_d [text ! (offset - 2)] then mt
          else grp gs 1 @ [0x2C] @ grp gs 2)"

definition ruDecimals_apply :: "jsstring \<Rightarrow> RuleContext \<Rightarrow> jsstring" where
  "ruDecimals_apply text ctx =
     replace_g noflags decimalPattern (ruDecimals_callback text ctx) text"

definition ruDecimals :: TypographyRule where
  "ruDecimals =
     \<lparr>rule_id = ''ru/numbers/decimals'', rule_locale = Ru, rule_group = GNumbers,
      enabled = True, priority = 62, rule_apply = ruDecimals_apply\<rparr>"

text \<open>\<open>ru/numbers/thousands\<close>: \<open>/(\d)(?=(?:\d{3})+(?![,.\d]))/g\<close> with a callback that
  keeps a protected match and otherwise appends a thin space to the digit.\<close>

definition thousandsPattern :: regex where
  "thousandsPattern =
     Seq (Grp 1 re_d)
         (Look True (Seq (Plus (Rep 3 (Some 3) True re_d))
                         (Look False (Cls False [CChar 0x2C, CChar 0x2E, CDigit]))))"

definition ruThousands_callback :: "RuleContext \<Rightarrow> replacer" where
  "ruThousands_callback ctx mt gs offset =
     (if isProtected offset (protectedRanges ctx) then mt else grp gs 1 @ [THIN])"

definition ruThousands_apply :: "jsstring \<Rightarrow> RuleContext \<Rightarrow> jsstring" where
  "ruThousands_apply text ctx =
     replace_g noflags thousandsPattern (ruThousands_callback ctx) text"

definition ruThousands :: TypographyRule where
  "ruThousands =
     \<lparr>rule_id = ''ru/numbers/thousands'', rule_locale = Ru, rule_group = GNumbers,
      enabled = True, priority = 63, rule_apply = ruThousands_apply\<rparr>"

text \<open>\<open>ru/numbers/percent\<close>: \<open>/(\d+)\s*%/g\<close> becomes \<open>$1\<close>,
  a thin space and \<open>%\<close>.\<close>

definition ruPercent_apply :: "jsstring \<Rightarrow> RuleContext \<Rightarrow> jsstring" where
  "ruPercent_apply text ctx =
     replace_g noflags (Seqs [Grp 1 (Plus re_d), Star re_s, Chr 0x25])
       (template [TGrp 1, TLit [THIN, 0x25]]) text"

definition ruPercent :: TypographyRule where
  "ruPercent =
     \<lparr>rule_id = ''ru/numbers/percent'', rule_locale = Ru, rule_group = GNumbers,
      enabled = True, priority = 64, rule_apply = ruPercent_apply\<rparr>"

text \<open>\<open>ru/numbers/abbreviations\<close>: \<open>/\b(\u0442\u044B\u0441)(?![.\w])/gi\<close> becomes \<open>$1.\<close> and
  \<open>/\b(\u043C\u043B\u043D|\u043C\u043B\u0440\u0434|\u0442\u0440\u043B\u043D)\./gi\<close> becomes \<open>$1\<close>.\<close>

definition ruNumberAbbr_apply :: "jsstring \<Rightarrow> RuleContext \<Rightarrow> jsstring" where
  "ruNumberAbbr_apply text ctx =
     (let result = text;
          result = replace_g flag_i
                     (Seqs [WordB, Grp 1 (Str [0x442, 0x44B, 0x441]),
                       Look False (Cls False [CChar 0x2E, CWord])])
                     (template [TGrp 1, TLit [0x2E]]) result;
          result = replace_g flag_i
                     (Seqs [WordB, Grp 1 (Alts [Str [0x43C, 0x43B, 0x43D], Str [0x43C,
                       0x43B, 0x440, 0x434], Str [0x442, 0x440, 0x43B, 0x43D]]), Chr 0x2E])
                     (template [TGrp 1]) result
      in result)"

definition ruNumberAbbr :: TypographyRule where
  "ruNumberAbbr =
     \<lparr>rule_id = ''ru/numbers/abbreviations'', rule_locale = Ru, rule_group = GNumbers,
      enabled = True, priority = 65, rule_apply = ruNumberAbbr_apply\<rparr>"

text \<open>\<open>ru/numbers/multiplication\<close>: \<open>/\b(\d{2,})\s*[x\u0445]\s*(\d+)\b/gi\<close> becomes
  \<open>$1\u00D7$2\<close>.\<close>

definition ruMultiplication_apply :: "jsstring \<Rightarrow> RuleContext \<Rightarrow> jsstring" where
  "ruMultiplication_apply text ctx =
     replace_g flag_i
       (Seqs [WordB, Grp 1 (Rep 2 None True re_d), Star re_s,
              Cls False [CChar 0x78, CChar 0x445], Star re_s, Grp 2 (Plus re_d), WordB])
       (template [TGrp 1, TLit [0xD7], TGrp 2]) text"

definition ruMultiplication :: TypographyRule where
  "ruMultiplication =
     \<lparr>rule_id = ''ru/numbers/multiplication'', rule_locale = Ru, rule_group = GNumbers,
      enabled = True, priority = 61, rule_apply = ruMultiplication_apply\<rparr>"

text \<open>\<open>ru/numbers/temperature\<close>:
  \<open>/([+-]?\d+)\s*\u00B0?\s*C(?![a-zA-Z\u0430-\u044F\u0410-\u042F\u0451\u0401])/g\<close> becomes \<open>$1\u00A0\u00B0C\<close> and
  \<open>/(\d+)\s*(\u0433\u0440\u0430\u0434\u0443\u0441\u043E\u0432|\u0433\u0440\u0430\u0434\u0443\u0441\u0430|\u0433\u0440\u0430\u0434\u0443\u0441)\b/gi\<close> becomes \<open>$1\u00B0\<close>.\<close>

definition ruTemperature_apply :: "jsstring \<Rightarrow> RuleContext \<Rightarrow> jsstring" where
  "ruTemperature_apply text ctx =
     (let result = text;
          result = replace_g noflags
                     (Seqs [Grp 1 (Seq (Opt (Cls False [CChar 0x2B, CChar 0x2D])) (Plus re_d)),
                            Star re_s, Opt (Chr 0xB0), Star re_s, Chr 0x43,
                            Look False (Cls False ([CRange 0x61 0x7A,
                              CRange 0x41 0x5A] @ cyr))])
                     (template [TGrp 1, TLit [NBSP, 0xB0, 0x43]]) result;
          result = replace_g flag_i
                     (Seqs [Grp 1 (Plus re_d), Star re_s,
                            Grp 2 (Alts [Str [0x433, 0x440, 0x430, 0x434, 0x443, 0x441,
                              0x43E, 0x432], Str [0x433, 0x440, 0x430, 0x434, 0x443, 0x441,
                              0x430], Str [0x433, 0x440, 0x430, 0x434, 0x443, 0x441]]),
                              WordB])
                     (template [TGrp 1, TLit [0xB0]]) result
      in result)"

definition ruTemperature :: TypographyRule where
  "ruTemperature =
     \<lparr>rule_id = ''ru/numbers/temperature'', rule_locale = Ru, rule_group = GNumbers,
      enabled = True, priority = 66, rule_apply = ruTemperature_apply\<rparr>"

text \<open>\<open>ru/spaces/hanging\<close>: \<open>/(\S+)\s([\u0430-\u044F\u0410-\u042F\u0451\u0401-]{1,3}[.,!?\u2026]?)$/gm\<close> becomes
  \<open>$1\u00A0$2\<close>.\<close>

definition ruHanging_apply :: "jsstring \<Rightarrow> RuleContext \<Rightarrow> jsstring" where
  "ruHanging_apply text ctx =
     replace_g flag_m
       (Seqs [Grp 1 (Plus re_S), re_s,
              Grp 2 (Seq (Rep 1 (Some 3) True (Cls False (cyr @ [CChar 0x2D])))
                         (Opt (Cls False [CChar 0x2E, CChar 0x2C, CChar 0x21, CChar 0x3F,
                                          CChar 0x2026]))),
              Eol])
       (template [TGrp 1, TLit [NBSP], TGrp 2]) text"

definition ruHanging :: TypographyRule where
  "ruHanging =
     \<lparr>rule_id = ''ru/spaces/hanging'', rule_locale = Ru, rule_group = GSpaces,
      enabled = True, priority = 90, rule_apply = ruHanging_apply\<rparr>"

definition ruRules :: "TypographyRule list" where
  "ruRules =
     [ruFixCase, ruYo, ruQuotes, ruEnDash, ruEmDash, ruBracketSpaces, ruShortWords,
      ruEmDashSpace, ruInitials, ruAbbreviationPatterns, ruDigitsUnits, ruDotAbbreviations,
      ruSymbolSpaces, ruCurrency, ruMultiplication, ruDecimals, ruThousands, ruPercent,
      ruNumberAbbr, ruTemperature, ruHanging]"

subsection \<open>English rules\<close>

text \<open>
  \<open>en/quotes/curly\<close>,
    in the order of the source: \<open>/[\u201C\u201D]/g\<close> becomes the straight
  quote; \<open>/(^|[\s(\[{])"(?=\S)/gm\<close> opens; \<open>/"(?=[\s)\]},;:!?.]|$)/gm\<close> closes;
  \<open>/(^|[\s(\[{])"/gm\<close> opens; \<open>/"/g\<close> closes; \<open>/(\w)'(\w)/g\<close> is an apostrophe;
  \<open>/(^|[\s(\[{])'(?=\S)/gm\<close> opens and \<open>/'(?=[\s)\]},;:!?.]|$)/gm\<close> closes a single quote.
\<close>

definition openBefore :: regex where
  "openBefore = Alt Bol (Cls False [CSpace, CChar 0x28, CChar 0x5B, CChar 0x7B])"

definition closeAfter :: regex where
  "closeAfter =
     Alt (Cls False [CSpace, CChar 0x29, CChar 0x5D, CChar 0x7D, CChar 0x2C, CChar 0x3B,
                     CChar 0x3A, CChar 0x21, CChar 0x3F, CChar 0x2E])
         Eol"

definition enQuotes_apply :: "jsstring \<Rightarrow> RuleContext \<Rightarrow> jsstring" where
  "enQuotes_apply text ctx =
     (let result = text;
          result = replace_g noflags (Cls False [CChar 0x201C, CChar 0x201D])
                     (template [TLit [0x22]]) result;
          result = replace_g flag_m (Seqs [Grp 1 openBefore, Chr 0x22, Look True re_S])
                     (template [TGrp 1, TLit [0x201C]]) result;
          result = replace_g flag_m (Seq (Chr 0x22) (Look True closeAfter))
                     (template [TLit [0x201D]]) result;
          result = replace_g flag_m (Seq (Grp 1 openBefore) (Chr 0x22))
                     (template [TGrp 1, TLit [0x201C]]) result;
          result = replace_g noflags (Chr 0x22) (template [TLit [0x201D]]) result;
          result = replace_g noflags (Seqs [Grp 1 re_w, Chr 0x27, Grp 2 re_w])
                     (template [TGrp 1, TLit [0x2019], TGrp 2]) result;
          result = replace_g flag_m (Seqs [Grp 1 openBefore, Chr 0x27, Look True re_S])
                     (template [TGrp 1, TLit [0x2018]]) result;
          result = replace_g flag_m (Seq (Chr 0x27) (Look True closeAfter))
                     (template [TLit [0x2019]]) result
      in result)"

definition enQuotes :: TypographyRule where
  "enQuotes =
     \<lparr>rule_id = ''en/quotes/curly'', rule_locale = En, rule_group = GQuotes,
      enabled = True, priority = 30, rule_apply = enQuotes_apply\<rparr>"

text \<open>\<open>en/dashes/smart\<close>: \<open>/---?/g\<close> becomes the em dash,
  \<open>/(\d+)\s*-\s*(\d+)/g\<close> becomes
  \<open>$1\u2013$2\<close>.\<close>

definition enDashes_apply :: "jsstring \<Rightarrow> RuleContext \<Rightarrow> jsstring" where
  "enDashes_apply text ctx =
     (let result = text;
          result = replace_g noflags (Seq (Str [0x2D, 0x2D]) (Opt (Chr 0x2D)))
                     (template [TLit [0x2014]]) result;
          result = replace_g noflags numberRange (template [TGrp 1, TLit [0x2013],
            TGrp 2]) result
      in result)"

definition enDashes :: TypographyRule where
  "enDashes =
     \<lparr>rule_id = ''en/dashes/smart'', rule_locale = En, rule_group = GDashes,
      enabled = True, priority = 35, rule_apply = enDashes_apply\<rparr>"

text \<open>\<open>en/spaces/shortwords\<close>: \<open>(^|\s)(words)\s\<close> with \<open>gi\<close> becomes \<open>$1$2\<close> and a no-break
  space, twice.\<close>

definition enShortWords_pass :: "regex \<Rightarrow> jsstring \<Rightarrow> nat \<Rightarrow> jsstring" where
  "enShortWords_pass regex result i =
     replace_g flag_i regex (template [TGrp 1, TGrp 2, TLit [NBSP]]) result"

definition enShortWords_apply :: "jsstring \<Rightarrow> RuleContext \<Rightarrow> jsstring" where
  "enShortWords_apply text ctx =
     (let words = [[0x61], [0x61, 0x6E], [0x74, 0x68, 0x65], [0x61, 0x74], [0x62, 0x79],
       [0x66, 0x6F, 0x72], [0x69, 0x6E], [0x6F, 0x66], [0x6F, 0x6E], [0x74, 0x6F], [0x6F,
       0x72], [0x69, 0x66], [0x69, 0x73]];
          pattern = Alts (map Str words);
          result = text;
          regex = Seqs [Grp 1 (Alt Bol re_s), Grp 2 pattern, re_s]
      in foldl (enShortWords_pass regex) result [0..<2])"

definition enShortWords :: TypographyRule where
  "enShortWords =
     \<lparr>rule_id = ''en/spaces/shortwords'', rule_locale = En, rule_group = GSpaces,
      enabled = True, priority = 50, rule_apply = enShortWords_apply\<rparr>"

text \<open>\<open>en/spaces/units\<close>: \<open>(\d)\s+(units)\b\<close> with \<open>g\<close> becomes \<open>$1\<close>,
  a no-break space and
  \<open>$2\<close>.\<close>

definition enUnits_apply :: "jsstring \<Rightarrow> RuleContext \<Rightarrow> jsstring" where
  "enUnits_apply text ctx =
     (let units = [[0x6B, 0x67], [0x6B, 0x6D], [0x63, 0x6D], [0x6D, 0x6D], [0x6D, 0x6C],
       [0x6C, 0x62], [0x6F, 0x7A], [0x66, 0x74], [0x69, 0x6E], [0x6D, 0x69], [0x6D, 0x70,
       0x68], [0x47, 0x42], [0x4D, 0x42], [0x4B, 0x42], [0x54, 0x42]];
          pattern = Alts (map Str units)
      in replace_g noflags (Seqs [Grp 1 re_d, Plus re_s, Grp 2 pattern, WordB])
           (template [TGrp 1, TLit [NBSP], TGrp 2]) text)"

definition enUnits :: TypographyRule where
  "enUnits =
     \<lparr>rule_id = ''en/spaces/units'', rule_locale = En, rule_group = GSpaces,
      enabled = True, priority = 54, rule_apply = enUnits_apply\<rparr>"

text \<open>\<open>en/numbers/percent\<close>: \<open>/(\d)\s+%/g\<close> becomes \<open>$1%\<close>.\<close>

definition enPercent_apply :: "jsstring \<Rightarrow> RuleContext \<Rightarrow> jsstring" where
  "enPercent_apply text ctx =
     replace_g noflags (Seqs [Grp 1 re_d, Plus re_s, Chr 0x25])
       (template [TGrp 1, TLit [0x25]]) text"

definition enPercent :: TypographyRule where
  "enPercent =
     \<lparr>rule_id = ''en/numbers/percent'', rule_locale = En, rule_group = GNumbers,
      enabled = True, priority = 64, rule_apply = enPercent_apply\<rparr>"

text \<open>\<open>en/spaces/hanging\<close>: \<open>/(\S+)\s([a-zA-Z-]{1,3}[.,!?]?)$/gm\<close> becomes \<open>$1\<close>,
  a no-break
  space and \<open>$2\<close>.\<close>

definition enHanging_apply :: "jsstring \<Rightarrow> RuleContext \<Rightarrow> jsstring" where
  "enHanging_apply text ctx =
     replace_g flag_m
       (Seqs [Grp 1 (Plus re_S), re_s,
              Grp 2 (Seq (Rep 1 (Some 3) True
                            (Cls False [CRange 0x61 0x7A, CRange 0x41 0x5A, CChar 0x2D]))
                         (Opt (Cls False [CChar 0x2E, CChar 0x2C, CChar 0x21, CChar 0x3F]))),
              Eol])
       (template [TGrp 1, TLit [NBSP], TGrp 2]) text"

definition enHanging :: TypographyRule where
  "enHanging =
     \<lparr>rule_id = ''en/spaces/hanging'', rule_locale = En, rule_group = GSpaces,
      enabled = True, priority = 90, rule_apply = enHanging_apply\<rparr>"

definition enRules :: "TypographyRule list" where
  "enRules = [enQuotes, enDashes, enShortWords, enUnits, enPercent, enHanging]"

subsection \<open>French rules\<close>

text \<open>
  \<open>fr/quotes/guillemets\<close>: \<open>/[""\u00AB\u00BB\u201C\u201D]/g\<close> becomes the straight quote; then
  the four patterns of the English rule give the opening guillemet followed by a narrow
  no-break space, or that space followed by the closing guillemet.
\<close>

definition frQuotes_apply :: "jsstring \<Rightarrow> RuleContext \<Rightarrow> jsstring" where
  "frQuotes_apply text ctx =
     (let result = text;
          result = replace_g noflags
                     (Cls False [CChar 0x22, CChar 0x22, CChar 0xAB, CChar 0xBB, CChar 0x201C,
                                 CChar 0x201D])
                     (template [TLit [0x22]]) result;
          result = replace_g flag_m (Seqs [Grp 1 openBefore, Chr 0x22, Look True re_S])
                     (template [TGrp 1, TLit [0xAB, NNBSP]]) result;
          result = replace_g flag_m (Seq (Chr 0x22) (Look True closeAfter))
                     (template [TLit [NNBSP, 0xBB]]) result;
          result = replace_g flag_m (Seq (Grp 1 openBefore) (Chr 0x22))
                     (template [TGrp 1, TLit [0xAB, NNBSP]]) result;
          result = replace_g noflags (Chr 0x22) (template [TLit [NNBSP, 0xBB]]) result
      in result)"

definition frQuotes :: TypographyRule where
  "frQuotes =
     \<lparr>rule_id = ''fr/quotes/guillemets'', rule_locale = Fr, rule_group = GQuotes,
      enabled = True, priority = 30, rule_apply = frQuotes_apply\<rparr>"

text \<open>\<open>fr/punctuation/spaces\<close>: \<open>/\s*([;:!?])/g\<close> becomes a narrow no-break space and
  \<open>$1\<close>; then that space is removed again at the start of a line
  (\<open>^\u202F([;:!?])\<close> with \<open>gm\<close>).\<close>

definition frPunctuation_apply :: "jsstring \<Rightarrow> RuleContext \<Rightarrow> jsstring" where
  "frPunctuation_apply text ctx =
     (let result = text;
          punct = Cls False [CChar 0x3B, CChar 0x3A, CChar 0x21, CChar 0x3F];
          result = replace_g noflags (Seq (Star re_s) (Grp 1 punct))
                     (template [TLit [NNBSP], TGrp 1]) result;
          result = replace_g flag_m (Seqs [Bol, Chr NNBSP,
            Grp 1 punct]) (template [TGrp 1]) result
      in result)"

definition frPunctuation :: TypographyRule where
  "frPunctuation =
     \<lparr>rule_id = ''fr/punctuation/spaces'', rule_locale = Fr, rule_group = GPunctuation,
      enabled = True, priority = 40, rule_apply = frPunctuation_apply\<rparr>"

text \<open>\<open>fr/dashes/endash\<close>: \<open>/(\d+)\s*-\s*(\d+)/g\<close> becomes \<open>$1\u2013$2\<close>;
  \<open>/(?<=\S) - (?=\S)/g\<close> becomes a no-break space, the en dash and a space.\<close>

definition frDashes_apply :: "jsstring \<Rightarrow> RuleContext \<Rightarrow> jsstring" where
  "frDashes_apply text ctx =
     (let result = text;
          result = replace_g noflags numberRange (template [TGrp 1, TLit [0x2013],
            TGrp 2]) result;
          result = replace_g noflags phraseDash (template [TLit [NBSP, 0x2013, 0x20]]) result
      in result)"

definition frDashes :: TypographyRule where
  "frDashes =
     \<lparr>rule_id = ''fr/dashes/endash'', rule_locale = Fr, rule_group = GDashes,
      enabled = True, priority = 35, rule_apply = frDashes_apply\<rparr>"

text \<open>\<open>fr/numbers/format\<close>: \<open>/(\d)(?=(?:\d{3})+(?![,.\d]))/g\<close> becomes \<open>$1\<close> and a thin
  space; \<open>/(\d)\s*%/g\<close> becomes \<open>$1\<close>,
    a narrow no-break space and \<open>%\<close>.\<close>

definition frNumbers_apply :: "jsstring \<Rightarrow> RuleContext \<Rightarrow> jsstring" where
  "frNumbers_apply text ctx =
     (let result = text;
          result = replace_g noflags thousandsPattern (template [TGrp 1, TLit [0x2009]]) result;
          result = replace_g noflags (Seqs [Grp 1 re_d, Star re_s, Chr 0x25])
                     (template [TGrp 1, TLit [NNBSP, 0x25]]) result
      in result)"

definition frNumbers :: TypographyRule where
  "frNumbers =
     \<lparr>rule_id = ''fr/numbers/format'', rule_locale = Fr, rule_group = GNumbers,
      enabled = True, priority = 62, rule_apply = frNumbers_apply\<rparr>"

text \<open>\<open>fr/currency/euro\<close>: \<open>/(\d)\s*EUR\b/gi\<close> becomes \<open>$1\<close>,
  a no-break space and the
  euro sign; \<open>/(\d)\s*(\u20AC)/g\<close> becomes \<open>$1\<close>,
    a no-break space and \<open>$2\<close>.\<close>

definition frCurrency_apply :: "jsstring \<Rightarrow> RuleContext \<Rightarrow> jsstring" where
  "frCurrency_apply text ctx =
     (let result = text;
          result = replace_g flag_i (Seqs [Grp 1 re_d, Star re_s, Str [0x45, 0x55, 0x52],
            WordB])
                     (template [TGrp 1, TLit [NBSP, 0x20AC]]) result;
          result = replace_g noflags (Seqs [Grp 1 re_d, Star re_s, Grp 2 (Chr 0x20AC)])
                     (template [TGrp 1, TLit [NBSP], TGrp 2]) result
      in result)"

definition frCurrency :: TypographyRule where
  "frCurrency =
     \<lparr>rule_id = ''fr/currency/euro'', rule_locale = Fr, rule_group = GCurrency,
      enabled = True, priority = 60, rule_apply = frCurrency_apply\<rparr>"

text \<open>\<open>fr/special/ligatures\<close>: for every entry of the table,
  \<open>\bfrom\b\<close> with \<open>g\<close> becomes
  the word with the ligature.\<close>

definition frLigatures_step :: "jsstring \<Rightarrow> jsstring \<times> jsstring \<Rightarrow> jsstring" where
  "frLigatures_step result entry =
     replace_g noflags (Seqs [WordB, Str (fst entry),
       WordB]) (template [TLit (snd entry)]) result"

definition frLigatures_apply :: "jsstring \<Rightarrow> RuleContext \<Rightarrow> jsstring" where
  "frLigatures_apply text ctx =
     (let words = [([0x63, 0x6F, 0x65, 0x75, 0x72], [0x63, 0x153, 0x75, 0x72]), ([0x43,
       0x6F, 0x65, 0x75, 0x72], [0x43, 0x153, 0x75, 0x72]), ([0x6F, 0x65, 0x75, 0x76, 0x72,
       0x65], [0x153, 0x75, 0x76, 0x72, 0x65]), ([0x4F, 0x65, 0x75, 0x76, 0x72, 0x65],
       [0x152, 0x75, 0x76, 0x72, 0x65]), ([0x6F, 0x65, 0x75, 0x76, 0x72, 0x65, 0x73],
       [0x153, 0x75, 0x76, 0x72, 0x65, 0x73]), ([0x4F, 0x65, 0x75, 0x76, 0x72, 0x65, 0x73],
       [0x152, 0x75, 0x76, 0x72, 0x65, 0x73]), ([0x6F, 0x65, 0x69, 0x6C], [0x153, 0x69,
       0x6C]), ([0x4F, 0x65, 0x69, 0x6C], [0x152, 0x69, 0x6C]), ([0x76, 0x6F, 0x65, 0x75],
       [0x76, 0x153, 0x75]), ([0x56, 0x6F, 0x65, 0x75], [0x56, 0x153, 0x75]), ([0x76, 0x6F,
       0x65, 0x75, 0x78], [0x76, 0x153, 0x75, 0x78]), ([0x56, 0x6F, 0x65, 0x75, 0x78],
       [0x56, 0x153, 0x75, 0x78]), ([0x6E, 0x6F, 0x65, 0x75, 0x64], [0x6E, 0x153, 0x75,
       0x64]), ([0x4E, 0x6F, 0x65, 0x75, 0x64], [0x4E, 0x153, 0x75, 0x64]), ([0x73, 0x6F,
       0x65, 0x75, 0x72], [0x73, 0x153, 0x75, 0x72]), ([0x53, 0x6F, 0x65, 0x75, 0x72],
       [0x53, 0x153, 0x75, 0x72]), ([0x62, 0x6F, 0x65, 0x75, 0x66], [0x62, 0x153, 0x75,
       0x66]), ([0x42, 0x6F, 0x65, 0x75, 0x66], [0x42, 0x153, 0x75, 0x66]), ([0x6D, 0x61,
       0x6E, 0x6F, 0x65, 0x75, 0x76, 0x72, 0x65], [0x6D, 0x61, 0x6E, 0x153, 0x75, 0x76,
       0x72, 0x65]), ([0x4D, 0x61, 0x6E, 0x6F, 0x65, 0x75, 0x76, 0x72, 0x65], [0x4D, 0x61,
       0x6E, 0x153, 0x75, 0x76, 0x72, 0x65])]
      in foldl frLigatures_step text words)"

definition frLigatures :: TypographyRule where
  "frLigatures =
     \<lparr>rule_id = ''fr/special/ligatures'', rule_locale = Fr, rule_group = GSpecial,
      enabled = True, priority = 70, rule_apply = frLigatures_apply\<rparr>"

definition frRules :: "TypographyRule list" where
  "frRules = [frQuotes, frPunctuation, frDashes, frNumbers, frCurrency, frLigatures]"

subsection \<open>Chinese rules\<close>

text \<open>The class \<open>[\u4E00-\u9FFF\u3400-\u4DBF\uF900-\uFAFF]\<close> of the Chinese rules.\<close>

definition CJK_RANGE :: "citem list" where
  "CJK_RANGE = [CRange 0x4E00 0x9FFF, CRange 0x3400 0x4DBF, CRange 0xF900 0xFAFF]"

text \<open>\<open>zh/width/normalize\<close> and \<open>ja/width/normalize\<close>: the characters of \<open>/[\uFF10-\uFF19]/g\<close>
  and of \<open>/[\uFF21-\uFF3A\uFF41-\uFF5A]/g\<close> are moved down by \<open>0xfee0\<close>.\<close>

definition toHalfwidth :: replacer where
  "toHalfwidth ch gs offset = (case ch of [] \<Rightarrow> [] | c # cs \<Rightarrow> [(c - 0xFEE0) mod 0x10000])"

definition widthNormalize_apply :: "jsstring \<Rightarrow> RuleContext \<Rightarrow> jsstring" where
  "widthNormalize_apply text ctx =
     (let result = text;
          result = replace_g noflags (Cls False [CRange 0xFF10 0xFF19]) toHalfwidth result;
          result = replace_g noflags (Cls False [CRange 0xFF21 0xFF3A, CRange 0xFF41 0xFF5A])
                     toHalfwidth result
      in result)"

definition zhWidthNormalize :: TypographyRule where
  "zhWidthNormalize =
     \<lparr>rule_id = ''zh/width/normalize'', rule_locale = Zh, rule_group = GWidth,
      enabled = True, priority = 25, rule_apply = widthNormalize_apply\<rparr>"

text \<open>
  \<open>zh/punctuation/fullwidth\<close>: for every entry of the table, in its order, the
  half-width mark after a CJK character becomes the full-width one; the opening
  parenthesis is also converted before a CJK character.
\<close>

definition zhFullwidthPunctuation_step :: "jsstring \<Rightarrow> jsstring \<times> jsstring \<Rightarrow> jsstring" where
  "zhFullwidthPunctuation_step result entry =
     (let half = fst entry; full = snd entry;
          result = replace_g noflags (Seq (Grp 1 (Cls False CJK_RANGE)) (Str half))
                     (template [TGrp 1, TLit full]) result
      in if half = [0x28]
         then replace_g noflags (Seq (Str half) (Grp 1 (Cls False CJK_RANGE)))
                (template [TLit full, TGrp 1]) result
         else result)"

definition zhFullwidthPunctuation_apply :: "jsstring \<Rightarrow> RuleContext \<Rightarrow> jsstring" where
  "zhFullwidthPunctuation_apply text ctx =
     (let punctMap = [([0x2C], [0xFF0C]), ([0x2E], [0x3002]), ([0x21], [0xFF01]), ([0x3F],
       [0xFF1F]), ([0x3B], [0xFF1B])] @ [([0x3A], [0xFF1A])] @ [([0x28], [0xFF08]), ([0x29],
       [0xFF09])]
      in foldl zhFullwidthPunctuation_step text punctMap)"

definition zhFullwidthPunctuation :: TypographyRule where
  "zhFullwidthPunctuation =
     \<lparr>rule_id = ''zh/punctuation/fullwidth'', rule_locale = Zh,
       rule_group = GPunctuation,
      enabled = True, priority = 30, rule_apply = zhFullwidthPunctuation_apply\<rparr>"

text \<open>
  \<open>zh/quotes/corner\<close> and \<open>ja/quotes/corner\<close>:
  \<open>/[\u201C""]([^""\u201C\u201D]*?)[\u201D""]/g\<close> becomes the group in corner brackets, and
  one pair of corner brackets inside another becomes white corner brackets.
\<close>

definition cornerQuotes_apply :: "jsstring \<Rightarrow> RuleContext \<Rightarrow> jsstring" where
  "cornerQuotes_apply text ctx =
     (let result = text;
          result = replace_g noflags
                     (Seqs [Cls False [CChar 0x201C, CChar 0x22, CChar 0x22],
                            Grp 1 (Rep 0 None False
                                     (Cls True [CChar 0x22, CChar 0x22, CChar 0x201C,
                                       CChar 0x201D])),
                            Cls False [CChar 0x201D, CChar 0x22, CChar 0x22]])
                     (template [TLit [0x300C], TGrp 1, TLit [0x300D]]) result;
          inner = Rep 0 None False (Cls True [CChar 0x300C, CChar 0x300D]);
          result = replace_g noflags
                     (Seqs [Chr 0x300C, Grp 1 inner, Chr 0x300C, Grp 2 inner, Chr 0x300D,
                            Grp 3 inner, Chr 0x300D])
                     (template [TLit [0x300C], TGrp 1, TLit [0x300E], TGrp 2,
                       TLit [0x300F], TGrp 3,
                                TLit [0x300D]])
                     result
      in result)"

definition zhQuotes :: TypographyRule where
  "zhQuotes =
     \<lparr>rule_id = ''zh/quotes/corner'', rule_locale = Zh, rule_group = GQuotes,
      enabled = True, priority = 31, rule_apply = cornerQuotes_apply\<rparr>"

text \<open>\<open>zh/spaces/cjk-latin\<close>: a space is put between a CJK character and a following or
  preceding character of \<open>[a-zA-Z0-9]\<close>.\<close>

definition alnum :: regex where
  "alnum = Cls False [CRange 0x61 0x7A, CRange 0x41 0x5A, CRange 0x30 0x39]"

definition latinSpacing :: "citem list \<Rightarrow> jsstring \<Rightarrow> jsstring" where
  "latinSpacing chars text =
     (let result = text;
          result = replace_g noflags (Seq (Grp 1 (Cls False chars)) (Grp 2 alnum))
                     (template [TGrp 1, TLit [0x20], TGrp 2]) result;
          result = replace_g noflags (Seq (Grp 1 alnum) (Grp 2 (Cls False chars)))
                     (template [TGrp 1, TLit [0x20], TGrp 2]) result
      in result)"

definition zhCjkLatinSpacing_apply :: "jsstring \<Rightarrow> RuleContext \<Rightarrow> jsstring" where
  "zhCjkLatinSpacing_apply text ctx = latinSpacing CJK_RANGE text"

definition zhCjkLatinSpacing :: TypographyRule where
  "zhCjkLatinSpacing =
     \<lparr>rule_id = ''zh/spaces/cjk-latin'', rule_locale = Zh, rule_group = GSpaces,
      enabled = True, priority = 50, rule_apply = zhCjkLatinSpacing_apply\<rparr>"

definition zhRules :: "TypographyRule list" where
  "zhRules = [zhWidthNormalize, zhFullwidthPunctuation, zhQuotes, zhCjkLatinSpacing]"

subsection \<open>Japanese rules\<close>

text \<open>The class \<open>JA_CHAR\<close>: the CJK ranges, hiragana and katakana.\<close>

definition JA_CHAR :: "citem list" where
  "JA_CHAR = CJK_RANGE @ [CRange 0x3040 0x309F, CRange 0x30A0 0x30FF]"

text \<open>\<open>ja/punctuation/fullwidth\<close>: after a Japanese character the comma,
  the full stop
  not followed by a digit, the exclamation mark and the question mark become full-width.\<close>

definition jaFullwidthPunctuation_apply :: "jsstring \<Rightarrow> RuleContext \<Rightarrow> jsstring" where
  "jaFullwidthPunctuation_apply text ctx =
     (let result = text;
          result = replace_g noflags (Seq (Grp 1 (Cls False JA_CHAR)) (Chr 0x2C))
                     (template [TGrp 1, TLit [0x3001]]) result;
          result = replace_g noflags
                     (Seqs [Grp 1 (Cls False JA_CHAR), Chr 0x2E, Look False re_d])
                     (template [TGrp 1, TLit [0x3002]]) result;
          result = replace_g noflags (Seq (Grp 1 (Cls False JA_CHAR)) (Chr 0x21))
                     (template [TGrp 1, TLit [0xFF01]]) result;
          result = replace_g noflags (Seq (Grp 1 (Cls False JA_CHAR)) (Chr 0x3F))
                     (template [TGrp 1, TLit [0xFF1F]]) result
      in result)"

definition jaFullwidthPunctuation :: TypographyRule where
  "jaFullwidthPunctuation =
     \<lparr>rule_id = ''ja/punctuation/fullwidth'', rule_locale = Ja,
       rule_group = GPunctuation,
      enabled = True, priority = 30, rule_apply = jaFullwidthPunctuation_apply\<rparr>"

definition jaQuotes :: TypographyRule where
  "jaQuotes =
     \<lparr>rule_id = ''ja/quotes/corner'', rule_locale = Ja, rule_group = GQuotes,
      enabled = True, priority = 31, rule_apply = cornerQuotes_apply\<rparr>"

definition jaCjkLatinSpacing_apply :: "jsstring \<Rightarrow> RuleContext \<Rightarrow> jsstring" where
  "jaCjkLatinSpacing_apply text ctx = latinSpacing JA_CHAR text"

definition jaCjkLatinSpacing :: TypographyRule where
  "jaCjkLatinSpacing =
     \<lparr>rule_id = ''ja/spaces/cjk-latin'', rule_locale = Ja, rule_group = GSpaces,
      enabled = True, priority = 50, rule_apply = jaCjkLatinSpacing_apply\<rparr>"

text \<open>
  \<open>ja/punctuation/kinsoku\<close>: for every character of \<open>noStart\<close>,
    a space before it becomes
  a no-break space. None of these characters is special in a pattern, so the escaped
  character is the character.
\<close>

definition noStart :: jsstring where
  "noStart = [0x3001, 0x3002, 0xFF0C, 0xFF0E, 0x30FB, 0xFF1A, 0xFF1B, 0xFF01, 0xFF1F,
    0xFF09, 0x300D, 0x300F, 0x3011, 0x3009, 0x300B, 0x3015, 0xFF5D, 0x3019, 0x301B,
    0xBB] @ [0x2019, 0x201D]"

definition jaKinsoku_step :: "jsstring \<Rightarrow> jsstring \<Rightarrow> jsstring" where
  "jaKinsoku_step result ch =
     replace_g noflags (Seq (Chr 0x20) (Grp 1 (Str ch))) (template [TLit [0xA0],
       TGrp 1]) result"

definition jaKinsoku_apply :: "jsstring \<Rightarrow> RuleContext \<Rightarrow> jsstring" where
  "jaKinsoku_apply text ctx = foldl jaKinsoku_step text (spread noStart)"

definition jaKinsoku :: TypographyRule where
  "jaKinsoku =
     \<lparr>rule_id = ''ja/punctuation/kinsoku'', rule_locale = Ja, rule_group = GPunctuation,
      enabled = True, priority = 90, rule_apply = jaKinsoku_apply\<rparr>"

definition jaWidthNormalize :: TypographyRule where
  "jaWidthNormalize =
     \<lparr>rule_id = ''ja/width/normalize'', rule_locale = Ja, rule_group = GWidth,
      enabled = True, priority = 25, rule_apply = widthNormalize_apply\<rparr>"

definition jaRules :: "TypographyRule list" where
  "jaRules = [jaWidthNormalize, jaFullwidthPunctuation, jaQuotes, jaCjkLatinSpacing, jaKinsoku]"

section \<open>The engine\<close>

text \<open>All registered rules.\<close>

definition ALL_RULES :: "TypographyRule list" where
  "ALL_RULES = commonRules @ ruRules @ enRules @ frRules @ zhRules @ jaRules"

text \<open>\<open>getRulesForLocale\<close>: the rules of the locale and the common rules,
  sorted by priority
  with a stable sort.\<close>

definition getRulesForLocale :: "Locale \<Rightarrow> TypographyRule list" where
  "getRulesForLocale locale =
     sort_key priority (filter (\<lambda>r. rule_locale r = locale \<or> rule_locale r = Common) ALL_RULES)"

definition getAllRules :: "TypographyRule list" where
  "getAllRules = ALL_RULES"

text \<open>
  The loop \<open>for (const rule of rules)\<close> of \<open>applyTypography\<close>,
    on the working text
  \<open>result\<close>. \<open>isEnabled\<close> is \<open>settings.enabledRules[rule.id] ?? rule.enabled\<close>.
\<close>

definition isEnabled :: "TypographySettings \<Rightarrow> TypographyRule \<Rightarrow> bool" where
  "isEnabled settings rule =
     (case enabledRules settings (rule_id rule) of Some b \<Rightarrow> b | None \<Rightarrow> enabled rule)"

fun applyRules :: "TypographySettings \<Rightarrow> Locale \<Rightarrow> TypographyRule list \<Rightarrow> jsstring \<Rightarrow> jsstring option" where
  "applyRules settings locale [] result = Some result"
| "applyRules settings locale (rule # rules) result =
     (if \<not> isEnabled settings rule then applyRules settings locale rules result
      else
        case findProtectedRanges result of
          None \<Rightarrow> None
        | Some ranges \<Rightarrow>
            applyRules settings locale rules
              (rule_apply rule result \<lparr>ctx_locale = locale,
                protectedRanges = ranges\<rparr>))"

text \<open>
  \<open>applyTypography\<close>. The result is \<open>None\<close> if a search for protected ranges does not
  return (it always does, see \<open>findProtectedRanges_total\<close>).
\<close>

definition applyTypography :: "jsstring \<Rightarrow> TypographySettings \<Rightarrow> jsstring option" where
  "applyTypography text settings =
     (if text = [] \<or> length (trim text) = 0 then Some text
      else
        let locale = (case locale_setting settings of Auto \<Rightarrow> detectLocale text | Fixed l \<Rightarrow> l);
            rules = getRulesForLocale locale
        in case findProtectedRanges text of
             None \<Rightarrow> None
           | Some ranges \<Rightarrow> applyRules settings locale rules text)"


section \<open>Verified properties\<close>

subsection \<open>Locale detection\<close>

text \<open>The texts of the detector tests, as UTF-16 code units.\<close>

definition ex_privet :: jsstring where
  "ex_privet =
     [0x41F, 0x440, 0x438, 0x432, 0x435, 0x442, 0x2C, 0x20, 0x43A, 0x430, 0x43A, 0x20,
      0x434, 0x435, 0x43B, 0x430, 0x3F]"

definition ex_nihao :: jsstring where
  "ex_nihao =
     [0x4F60, 0x597D, 0x4E16, 0x754C, 0xFF0C, 0x8FD9, 0x662F, 0x4E00, 0x4E2A, 0x6D4B,
      0x8BD5]"

definition ex_konnichiwa :: jsstring where
  "ex_konnichiwa =
     [0x3053, 0x3093, 0x306B, 0x3061, 0x306F, 0x4E16, 0x754C, 0x3001, 0x30C6, 0x30B9,
      0x30C8, 0x3067, 0x3059]"

definition ex_digits :: jsstring where
  "ex_digits =
     [0x31, 0x32, 0x33, 0x34, 0x35]"

definition ex_mixed :: jsstring where
  "ex_mixed =
     [0x41F, 0x440, 0x438, 0x432, 0x435, 0x442, 0x20, 0x77, 0x6F, 0x72, 0x6C, 0x64,
      0x2C, 0x20, 0x43A, 0x430, 0x43A, 0x20, 0x434, 0x435, 0x43B, 0x430, 0x20, 0x74,
      0x6F, 0x64, 0x61, 0x79, 0x3F]"

text \<open>
  C6. \<open>detectLocale\<close> answers \<open>ru\<close> for the Russian greeting, \<open>zh\<close> for the Chinese
  sentence, \<open>ja\<close> for the Japanese sentence that mixes kana and kanji, \<open>en\<close> for the
  empty string and for \<open>12345\<close>, and \<open>ru\<close> for the mixed Russian and English sentence.
\<close>

theorem detectLocale_examples:
  "detectLocale ex_privet = Ru \<and> detectLocale ex_nihao = Zh \<and> detectLocale ex_konnichiwa = Ja
   \<and> detectLocale [] = En \<and> detectLocale ex_digits = En \<and> detectLocale ex_mixed = Ru"
  by code_simp

text \<open>
  The Japanese sentence holds two kanji next to its ten kana: the kana threshold is
  checked first and decides.
\<close>

lemma ex_konnichiwa_counts:
  "cjk (countChars ex_konnichiwa) = 2 \<and> hiraganaKatakana (countChars ex_konnichiwa) = 10"
  by code_simp

text \<open>
  C7, as stated, fails: for the one-letter text \<open>e\<close> with acute accent none of the
  earlier thresholds fires, the diacritic count is 1 and the ratio is 1, but there is no
  Latin letter and \<open>detectLocale\<close> answers \<open>en\<close>, since the source also asks for
  \<open>counts.latin > 0\<close>.
\<close>

theorem detectLocale_french_no_latin_counterexample:
  "total (countChars [0xE9]) \<noteq> 0
   \<and> real (hiraganaKatakana (countChars [0xE9])) / real (total (countChars [0xE9])) \<le> 0.05
   \<and> real (cjk (countChars [0xE9])) / real (total (countChars [0xE9])) \<le> 0.2
   \<and> real (cyrillic (countChars [0xE9])) / real (total (countChars [0xE9])) \<le> 0.2
   \<and> french (countChars [0xE9]) > 0
   \<and> real (french (countChars [0xE9]))
         / real (french (countChars [0xE9]) + latin (countChars [0xE9])) > 0.03
   \<and> latin (countChars [0xE9]) = 0
   \<and> detectLocale [0xE9] \<noteq> Fr"
  by code_simp

text \<open>
  C7, amended: when none of the earlier thresholds fires, the diacritic count and the
  Latin-letter count are both greater than 0 and diacritic/(diacritic+latin) is greater
  than 0.03, \<open>detectLocale\<close> answers \<open>fr\<close>.
\<close>

theorem detectLocale_french:
  assumes "total (countChars text) \<noteq> 0"
    and "real (hiraganaKatakana (countChars text)) / real (total (countChars text)) \<le> 0.05"
    and "real (cjk (countChars text)) / real (total (countChars text)) \<le> 0.2"
    and "real (cyrillic (countChars text)) / real (total (countChars text)) \<le> 0.2"
    and "french (countChars text) > 0"
    and "latin (countChars text) > 0"
    and "real (french (countChars text))
           / real (french (countChars text) + latin (countChars text)) > 0.03"
  shows "detectLocale text = Fr"
proof -
  have "real (french (countChars text))
          / real (latin (countChars text) + french (countChars text)) > 0.03"
    using assms(7) by (simp add: add.commute)
  with assms(1-6) show ?thesis
    unfolding detectLocale_def Let_def by (simp add: not_less)
qed

text \<open>The amended statement at the text \<open>ete\<close> with two acute accents.\<close>

theorem detectLocale_french_witness:
  "detectLocale [0xE9, 0x74, 0xE9] = Fr"
proof -
  have "total (countChars [0xE9, 0x74, 0xE9]) \<noteq> 0"
    and "real (hiraganaKatakana (countChars [0xE9, 0x74, 0xE9]))
           / real (total (countChars [0xE9, 0x74, 0xE9])) \<le> 0.05"
    and "real (cjk (countChars [0xE9, 0x74, 0xE9]))
           / real (total (countChars [0xE9, 0x74, 0xE9])) \<le> 0.2"
    and "real (cyrillic (countChars [0xE9, 0x74, 0xE9]))
           / real (total (countChars [0xE9, 0x74, 0xE9])) \<le> 0.2"
    and "french (countChars [0xE9, 0x74, 0xE9]) > 0"
    and "latin (countChars [0xE9, 0x74, 0xE9]) > 0"
    and "real (french (countChars [0xE9, 0x74, 0xE9]))
           / real (french (countChars [0xE9, 0x74, 0xE9]) + latin (countChars [0xE9, 0x74, 0xE9]))
         > 0.03"
    by code_simp+
  then show ?thesis by (rule detectLocale_french)
qed

subsection \<open>The search for protected ranges always returns\<close>

text \<open>A pattern is consuming if each of its matches takes at least one code unit.\<close>

definition consuming :: "regex \<Rightarrow> bool" where
  "consuming r = (\<forall>fl t st k z. m fl t r st k = Some z \<longrightarrow> (\<exists>j cs. fst st < j \<and> k (j, cs) = Some z))"

lemma consumingD:
  "consuming r \<Longrightarrow> m fl t r st k = Some z \<Longrightarrow> \<exists>j cs. fst st < j \<and> k (j, cs) = Some z"
  unfolding consuming_def by blast

lemma consuming_Cls: "consuming (Cls neg items)"
  unfolding consuming_def
proof (intro allI impI)
  fix fl t st k z
  assume "m fl t (Cls neg items) st k = Some z"
  then have "k (Suc (fst st), snd st) = Some z" by (simp split: if_splits)
  then show "\<exists>j cs. fst st < j \<and> k (j, cs) = Some z"
    by (intro exI[of _ "Suc (fst st)"] exI[of _ "snd st"]) simp
qed

lemma consuming_Seq1: "consuming a \<Longrightarrow> consuming (Seq a b)"
  unfolding consuming_def
proof (intro allI impI)
  fix fl t st k z
  assume a: "\<forall>fl t st k z. m fl t a st k = Some z \<longrightarrow> (\<exists>j cs. fst st < j \<and> k (j, cs) = Some z)"
    and "m fl t (Seq a b) st k = Some z"
  then have "m fl t a st (\<lambda>st'. m fl t b st' k) = Some z" by simp
  with a obtain j cs where j: "fst st < j" "m fl t b (j, cs) k = Some z" by blast
  from m_mono[OF j(2)] obtain j' cs' where "j \<le> j'" "k (j', cs') = Some z" by auto
  with j(1) show "\<exists>j cs. fst st < j \<and> k (j, cs) = Some z"
    by (intro exI[of _ j'] exI[of _ cs']) simp
qed

lemma consuming_Seq2: "consuming b \<Longrightarrow> consuming (Seq a b)"
  unfolding consuming_def
proof (intro allI impI)
  fix fl t st k z
  assume b: "\<forall>fl t st k z. m fl t b st k = Some z \<longrightarrow> (\<exists>j cs. fst st < j \<and> k (j, cs) = Some z)"
    and "m fl t (Seq a b) st k = Some z"
  then have "m fl t a st (\<lambda>st'. m fl t b st' k) = Some z" by simp
  from m_mono[OF this] obtain j cs where j: "fst st \<le> j" "m fl t b (j, cs) k = Some z" by blast
  from consumingD[OF _ j(2)] b obtain j' cs' where "j < j'" "k (j', cs') = Some z"
    unfolding consuming_def by fastforce
  with j(1) show "\<exists>j cs. fst st < j \<and> k (j, cs) = Some z"
    by (intro exI[of _ j'] exI[of _ cs']) simp
qed

lemma consuming_Rep:
  assumes "0 < mn" and "mx \<noteq> Some 0" and r: "consuming r"
  shows "consuming (Rep mn mx g r)"
  unfolding consuming_def
proof (intro allI impI)
  fix fl and t :: jsstring and st :: mstate and k :: cont and z
  let ?fuel = "mn + (length t - fst st)"
  let ?d = "\<lambda>y. rep ?fuel (m fl t r) (groups_of r) (mn - 1) (map_option (\<lambda>n. n - 1) mx) g y k"
  assume "m fl t (Rep mn mx g r) st k = Some z"
  with assms(1,2) have "m fl t r (fst st, clear_caps (groups_of r) (snd st)) ?d = Some z"
    by (simp add: Let_def)
  from consumingD[OF r this] obtain j cs where j: "fst st < j" "?d (j, cs) = Some z"
    by auto
  have "\<exists>j' cs'. fst (j, cs) \<le> j' \<and> k (j', cs') = Some z"
    by (rule rep_mono[OF _ j(2)]) (rule m_mono)
  then obtain j' cs' where "j \<le> j'" "k (j', cs') = Some z" by auto
  with j(1) show "\<exists>j cs. fst st < j \<and> k (j, cs) = Some z"
    by (intro exI[of _ j'] exI[of _ cs']) simp
qed

lemma consuming_patterns:
  "consuming urlPattern" "consuming emailPattern" "consuming ipPattern"
  "consuming versionPattern" "consuming hexPattern"
  unfolding urlPattern_def emailPattern_def ipPattern_def versionPattern_def hexPattern_def
    Seqs_def Str_def Chr_def Plus_def re_d_def
  by (simp_all add: consuming_Cls consuming_Seq1 consuming_Seq2 consuming_Rep)

lemma exec_from_consuming:
  "consuming re \<Longrightarrow> exec_from fl re t i = Some (s, e, cs) \<Longrightarrow> s < e"
proof (induction fl re t i rule: exec_from.induct)
  case (1 fl re t i)
  show ?case
  proof (cases "m fl t re (i, \<lambda>_. None) Some")
    case None
    with "1.prems" have le: "\<not> length t < i" and "exec_from fl re t (Suc i) = Some (s, e, cs)"
      by (auto split: if_splits)
    with "1.IH"[OF le None] "1.prems"(1) show ?thesis by simp
  next
    case (Some st)
    from consumingD[OF "1.prems"(1) Some] have "i < fst st" by auto
    with Some "1.prems" show ?thesis by (auto split: if_splits)
  qed
qed

lemma exec_all_total:
  "consuming re \<Longrightarrow> \<exists>rs. exec_all fl re t i = Some rs"
proof (induction fl re t i rule: exec_all.induct)
  case (1 fl re t lastIndex)
  show ?case
  proof (cases "exec_from fl re t lastIndex")
    case None
    then show ?thesis by simp
  next
    case (Some r)
    obtain s e cs where r: "r = (s, e, cs)" by (cases r) auto
    from exec_from_consuming[OF "1.prems"] Some r have "s < e" by blast
    moreover from exec_from_Some Some r have "lastIndex \<le> s" by blast
    ultimately have ne: "\<not> e \<le> lastIndex" by simp
    from "1.IH"[OF Some[unfolded r] refl refl ne "1.prems"]
    obtain rs where "exec_all fl re t e = Some rs" by blast
    with Some r ne show ?thesis by simp
  qed
qed

lemma findProtectedRanges_total: "\<exists>ranges. findProtectedRanges text = Some ranges"
proof -
  obtain r1 r2 r3 r4 r5 where
    "exec_all noflags urlPattern text 0 = Some r1"
    "exec_all noflags emailPattern text 0 = Some r2"
    "exec_all noflags ipPattern text 0 = Some r3"
    "exec_all noflags versionPattern text 0 = Some r4"
    "exec_all noflags hexPattern text 0 = Some r5"
    using exec_all_total[OF consuming_patterns(1)] exec_all_total[OF consuming_patterns(2)]
      exec_all_total[OF consuming_patterns(3)] exec_all_total[OF consuming_patterns(4)]
      exec_all_total[OF consuming_patterns(5)] by metis
  then show ?thesis
    by (simp add: findProtectedRanges_def PROTECTED_PATTERNS_def)
qed

subsection \<open>The engine\<close>

text \<open>
  The rules of a list applied one after the other, each on the text the last one left
  and with the protected ranges of that text: what applying every rule of the list means.
\<close>

fun applyAll :: "Locale \<Rightarrow> TypographyRule list \<Rightarrow> jsstring \<Rightarrow> jsstring option" where
  "applyAll locale [] result = Some result"
| "applyAll locale (rule # rules) result =
     (case findProtectedRanges result of
        None \<Rightarrow> None
      | Some ranges \<Rightarrow>
          applyAll locale rules
            (rule_apply rule result \<lparr>ctx_locale = locale, protectedRanges = ranges\<rparr>))"

lemma applyRules_filter:
  "applyRules settings locale rules result
     = applyAll locale (filter (isEnabled settings) rules) result"
  by (induction rules arbitrary: result) (auto split: option.splits)

lemma applyAll_total: "\<exists>out. applyAll locale rules result = Some out"
proof (induction rules arbitrary: result)
  case Nil
  show ?case by simp
next
  case (Cons rule rules)
  obtain ranges where "findProtectedRanges result = Some ranges"
    using findProtectedRanges_total by blast
  with Cons show ?case by simp
qed

lemma applyRules_cong:
  "(\<And>r. r \<in> set rules \<Longrightarrow> isEnabled s r = isEnabled s' r)
    \<Longrightarrow> applyRules s locale rules result = applyRules s' locale rules result"
  by (induction rules arbitrary: result) (auto split: option.splits)

lemma trim_blank:
  assumes "\<forall>c \<in> set t. isWhiteSpace c"
  shows "trim t = []"
proof -
  from assms have "dropWhile isWhiteSpace t = []"
    by (induction t) auto
  then show ?thesis by (simp only: trim_def trimEnd_def rev.simps dropWhile.simps)
qed

lemma getRulesForLocale_subset: "set (getRulesForLocale locale) \<subseteq> set ALL_RULES"
  by (auto simp: getRulesForLocale_def)

text \<open>
  C9. For every settings value, \<open>applyTypography\<close> returns an empty text or a text of
  white space only (the characters that \<open>trim\<close> removes) unchanged.
\<close>

theorem applyTypography_blank:
  "\<forall>c \<in> set text. isWhiteSpace c \<Longrightarrow> applyTypography text settings = Some text"
  by (simp add: applyTypography_def trim_blank)

theorem applyTypography_blank_witness:
  "list_all isWhiteSpace [0x20, 0x0A, 0xA0, 0x09]
   \<and> applyTypography [0x20, 0x0A, 0xA0, 0x09]
        \<lparr>locale_setting = Fixed Ru, enabledRules = [''common/layout/orphan'' \<mapsto> True]\<rparr>
      = Some [0x20, 0x0A, 0xA0, 0x09]
   \<and> applyTypography [] \<lparr>locale_setting = Auto, enabledRules = Map.empty\<rparr> = Some []"
proof -
  have w: "\<forall>c \<in> set [0x20, 0x0A, 0xA0, 0x09]. isWhiteSpace c"
    by (simp add: isWhiteSpace_def)
  have e: "\<forall>c \<in> set ([] :: jsstring). isWhiteSpace c" by simp
  from w have "list_all isWhiteSpace [0x20, 0x0A, 0xA0, 0x09]"
    by (simp only: list_all_iff)
  with applyTypography_blank[OF w] applyTypography_blank[OF e] show ?thesis by blast
qed

text \<open>
  C10. An entry of \<open>enabledRules\<close> whose key is not the identifier of a registered rule
  does not change the result of \<open>applyTypography\<close>.
\<close>

theorem applyTypography_unknown_rule_id:
  assumes "key \<notin> rule_id ` set ALL_RULES"
  shows "applyTypography text (settings\<lparr>enabledRules := (enabledRules settings)(key \<mapsto> b)\<rparr>)
           = applyTypography text settings"
proof -
  let ?s' = "settings\<lparr>enabledRules := (enabledRules settings)(key \<mapsto> b)\<rparr>"
  have same: "isEnabled ?s' r = isEnabled settings r" if "r \<in> set (getRulesForLocale loc)"
    for r loc
  proof -
    from that getRulesForLocale_subset have "r \<in> set ALL_RULES" by blast
    with assms have "rule_id r \<noteq> key" by blast
    then show ?thesis by (simp add: isEnabled_def)
  qed
  have "applyRules ?s' loc (getRulesForLocale loc) text
          = applyRules settings loc (getRulesForLocale loc) text" for loc
    by (rule applyRules_cong) (rule same)
  from this[of "case locale_setting settings of Auto \<Rightarrow> detectLocale text | Fixed l \<Rightarrow> l"]
  show ?thesis
    by (simp add: applyTypography_def Let_def split: option.splits)
qed

lemma registered_rule_ids:
  "map rule_id ALL_RULES =
     [''common/spaces/double'', ''common/special/symbols'', ''common/special/plusminus'',
      ''common/punctuation/ellipsis'', ''common/punctuation/duplicates'',
      ''ru/case/capslock'', ''ru/yo/basic'', ''ru/quotes/guillemets'', ''ru/dashes/endash'',
      ''ru/dashes/emdash'', ''ru/spaces/brackets'', ''ru/spaces/shortwords'',
      ''ru/spaces/emdash'', ''ru/spaces/initials'', ''ru/spaces/abbr-patterns'',
      ''ru/spaces/digits-units'', ''ru/spaces/dot-abbr'', ''ru/spaces/symbols'',
      ''ru/currency/format'', ''ru/numbers/multiplication'', ''ru/numbers/decimals'',
      ''ru/numbers/thousands'', ''ru/numbers/percent'', ''ru/numbers/abbreviations'',
      ''ru/numbers/temperature'', ''ru/spaces/hanging'',
      ''en/quotes/curly'', ''en/dashes/smart'', ''en/spaces/shortwords'', ''en/spaces/units'',
      ''en/numbers/percent'', ''en/spaces/hanging'',
      ''fr/quotes/guillemets'', ''fr/punctuation/spaces'', ''fr/dashes/endash'',
      ''fr/numbers/format'', ''fr/currency/euro'', ''fr/special/ligatures'',
      ''zh/width/normalize'', ''zh/punctuation/fullwidth'', ''zh/quotes/corner'',
      ''zh/spaces/cjk-latin'',
      ''ja/width/normalize'', ''ja/punctuation/fullwidth'', ''ja/quotes/corner'',
      ''ja/spaces/cjk-latin'', ''ja/punctuation/kinsoku'']"
  by code_simp

theorem applyTypography_unknown_rule_id_witness:
  "''ru/quotes/unknown'' \<notin> rule_id ` set ALL_RULES
   \<and> applyTypography [0x22, 0x61, 0x22]
        (\<lparr>locale_setting = Fixed Ru, enabledRules = Map.empty\<rparr>
           \<lparr>enabledRules := (Map.empty)(''ru/quotes/unknown'' \<mapsto> False)\<rparr>)
      = applyTypography [0x22, 0x61, 0x22] \<lparr>locale_setting = Fixed Ru, enabledRules = Map.empty\<rparr>"
proof -
  have "rule_id ` set ALL_RULES = set (map rule_id ALL_RULES)" by simp
  then have k: "''ru/quotes/unknown'' \<notin> rule_id ` set ALL_RULES"
    unfolding registered_rule_ids by simp
  from k applyTypography_unknown_rule_id[OF k, of "[0x22, 0x61, 0x22]"
      "\<lparr>locale_setting = Fixed Ru, enabledRules = Map.empty\<rparr>" False]
  show ?thesis by simp
qed

text \<open>
  C2. \<open>applyTypography\<close> applies exactly the rules whose effective enabled state is
  true, in the order of their priority: the entry of \<open>enabledRules\<close> for the identifier of
  the rule if there is one, the default of the rule otherwise. With
  \<open>enabledRules["ru/yo/basic"] = false\<close> no rule with that identifier is applied, although
  the default of the rule is \<open>true\<close>.
\<close>

theorem applyTypography_applies_enabled_rules:
  "isEnabled settings rule
     = (case enabledRules settings (rule_id rule) of Some b \<Rightarrow> b | None \<Rightarrow> enabled rule)
   \<and> applyTypography text settings
     = (if text = [] \<or> length (trim text) = 0 then Some text
        else
          let locale = (case locale_setting settings of Auto \<Rightarrow> detectLocale text | Fixed l \<Rightarrow> l)
          in applyAll locale (filter (isEnabled settings) (getRulesForLocale locale)) text)
   \<and> (enabledRules settings ''ru/yo/basic'' = Some False \<longrightarrow>
        rule_id ruYo = ''ru/yo/basic'' \<and> enabled ruYo \<and> \<not> isEnabled settings ruYo
        \<and> (\<forall>locale. \<forall>r \<in> set (filter (isEnabled settings) (getRulesForLocale locale)).
              rule_id r \<noteq> ''ru/yo/basic''))"
proof (intro conjI impI)
  show "isEnabled settings rule
     = (case enabledRules settings (rule_id rule) of Some b \<Rightarrow> b | None \<Rightarrow> enabled rule)"
    by (simp add: isEnabled_def)
next
  obtain ranges where "findProtectedRanges text = Some ranges"
    using findProtectedRanges_total by blast
  then show "applyTypography text settings
     = (if text = [] \<or> length (trim text) = 0 then Some text
        else
          let locale = (case locale_setting settings of Auto \<Rightarrow> detectLocale text | Fixed l \<Rightarrow> l)
          in applyAll locale (filter (isEnabled settings) (getRulesForLocale locale)) text)"
    by (simp add: applyTypography_def Let_def applyRules_filter)
next
  show "rule_id ruYo = ''ru/yo/basic''" by (simp add: ruYo_def)
next
  show "enabled ruYo" by (simp add: ruYo_def)
next
  assume "enabledRules settings ''ru/yo/basic'' = Some False"
  then show "\<not> isEnabled settings ruYo" by (simp add: isEnabled_def ruYo_def)
next
  assume off: "enabledRules settings ''ru/yo/basic'' = Some False"
  show "\<forall>locale. \<forall>r \<in> set (filter (isEnabled settings) (getRulesForLocale locale)).
          rule_id r \<noteq> ''ru/yo/basic''"
  proof (intro allI ballI notI)
    fix loc r
    assume "r \<in> set (filter (isEnabled settings) (getRulesForLocale loc))"
      and "rule_id r = ''ru/yo/basic''"
    with off show False by (simp add: isEnabled_def)
  qed
qed

text \<open>The texts \<open>esche\<close> without and with the letter yo, and the settings that switch the
  rule off.\<close>

definition ex_esche :: jsstring where
  "ex_esche = [0x435, 0x449, 0x435]"

definition ex_eschyo :: jsstring where
  "ex_eschyo = [0x435, 0x449, 0x451]"

definition yo_off :: TypographySettings where
  "yo_off = \<lparr>locale_setting = Fixed Ru, enabledRules = [''ru/yo/basic'' \<mapsto> False]\<rparr>"

definition ru_defaults :: TypographySettings where
  "ru_defaults = \<lparr>locale_setting = Fixed Ru, enabledRules = Map.empty\<rparr>"

theorem applyTypography_applies_enabled_rules_witness:
  "enabledRules yo_off ''ru/yo/basic'' = Some False
   \<and> applyTypography ex_esche yo_off
       = applyAll Ru (filter (isEnabled yo_off) (getRulesForLocale Ru)) ex_esche
   \<and> ''ru/yo/basic'' \<notin> rule_id ` set (filter (isEnabled yo_off) (getRulesForLocale Ru))"
proof -
  have off: "enabledRules yo_off ''ru/yo/basic'' = Some False"
    by (simp add: yo_off_def)
  have nb: "\<not> (ex_esche = [] \<or> length (trim ex_esche) = 0)"
    by code_simp
  have loc: "locale_setting yo_off = Fixed Ru" by (simp add: yo_off_def)
  define applied where "applied = filter (isEnabled yo_off) (getRulesForLocale Ru)"
  note inst = applyTypography_applies_enabled_rules[of yo_off ruYo ex_esche]
  from inst nb loc have run: "applyTypography ex_esche yo_off = applyAll Ru applied ex_esche"
    unfolding applied_def by (simp add: Let_def)
  from inst off have none: "\<forall>r \<in> set applied. rule_id r \<noteq> ''ru/yo/basic''"
    unfolding applied_def by blast
  have "''ru/yo/basic'' \<notin> rule_id ` set applied"
  proof
    assume "''ru/yo/basic'' \<in> rule_id ` set applied"
    then obtain r where eq: "''ru/yo/basic'' = rule_id r" and mem: "r \<in> set applied"
      by (rule imageE)
    from none mem have "rule_id r \<noteq> ''ru/yo/basic''" by (rule bspec)
    then show False using eq[symmetric] by (rule notE)
  qed
  with off run show ?thesis unfolding applied_def by (intro conjI)
qed

text \<open>With the rule switched off the word is returned as it is; with the defaults the
  letter is restored.\<close>

lemma yo_override_example:
  "applyTypography ex_esche yo_off = Some ex_esche"
  "applyTypography ex_esche ru_defaults = Some ex_eschyo"
  by code_simp+

subsection \<open>The Russian quote scan\<close>

text \<open>
  The classification of the marker at \<open>i\<close> as \<open>ruQuotes_step\<close> computes it: it reads the
  text before the marker and not the depth.
\<close>

definition classifiedOpening :: "jsstring list \<Rightarrow> nat \<Rightarrow> bool" where
  "classifiedOpening chars i =
     (let beforeCh = (if i > 0 then chars ! (i - 1) else [0x20])
      in (re_test noflags openingContext beforeCh \<or> i = 0)
         \<or> (beforeCh = [0xAB] \<or> beforeCh = [0x201E]))"

text \<open>The state of the scan after the first \<open>n\<close> steps.\<close>

definition ruQuotes_scan :: "jsstring list \<Rightarrow> nat \<Rightarrow> jsstring list \<times> int" where
  "ruQuotes_scan chars n = foldl (ruQuotes_step chars) ([], 0) [0..<n]"

lemma ruQuotes_apply_scan:
  "ruQuotes_apply text ctx =
     concat (fst (ruQuotes_scan
                    (spread (replace_g noflags quoteVariants (template [TLit [0x22]]) text))
                    (length (spread (replace_g noflags quoteVariants (template [TLit [0x22]]) text)))))"
  by (simp add: ruQuotes_apply_def ruQuotes_scan_def Let_def)

lemma ruQuotes_step_marker:
  "chars ! i = [0x22] \<Longrightarrow>
   ruQuotes_step chars st i =
     (if classifiedOpening chars i
      then (if snd st = 0 then (fst st @ [[0xAB]], snd st + 1) else (fst st @ [[0x201E]], snd st + 1))
      else (if snd st - 1 \<le> 0 then (fst st @ [[0xBB]], 0) else (fst st @ [[0x22]], snd st - 1)))"
  by (simp add: ruQuotes_step_def classifiedOpening_def Let_def)

lemma ruQuotes_step_other:
  "chars ! i \<noteq> [0x22] \<Longrightarrow> ruQuotes_step chars st i = (fst st @ [chars ! i], snd st)"
  by (simp add: ruQuotes_step_def Let_def)

lemma ruQuotes_step_depth: "0 \<le> snd st \<Longrightarrow> 0 \<le> snd (ruQuotes_step chars st i)"
  by (cases "chars ! i = [0x22]") (simp_all add: ruQuotes_step_marker ruQuotes_step_other)

lemma ruQuotes_scan_Suc:
  "ruQuotes_scan chars (Suc n) = ruQuotes_step chars (ruQuotes_scan chars n) n"
  by (simp add: ruQuotes_scan_def)

lemma ruQuotes_scan_depth: "0 \<le> snd (ruQuotes_scan chars n)"
proof (induction n)
  case 0
  show ?case by (simp add: ruQuotes_scan_def)
next
  case (Suc n)
  then show ?case by (simp add: ruQuotes_scan_Suc ruQuotes_step_depth)
qed

lemma not_opening_after_marker:
  "re_test noflags openingContext [0x22] = False"
  "re_test noflags openingContext [0xBB] = False"
  by code_simp+

lemma classifiedOpening_update:
  assumes "chars ! i = [0x22]" and "i < length chars" and "j \<noteq> i"
  shows "classifiedOpening (chars[i := [0xBB]]) j = classifiedOpening chars j"
proof (cases "j = Suc i")
  case True
  with assms show ?thesis
    by (simp add: classifiedOpening_def Let_def not_opening_after_marker)
next
  case False
  with assms(3) have "j > 0 \<Longrightarrow> j - 1 \<noteq> i" by auto
  then show ?thesis
    by (cases "j > 0") (simp_all add: classifiedOpening_def Let_def)
qed

lemma ruQuotes_step_update:
  assumes "chars ! i = [0x22]" and "i < length chars" and "j \<noteq> i"
  shows "ruQuotes_step (chars[i := [0xBB]]) st j = ruQuotes_step chars st j"
proof -
  from assms(3) have same: "chars[i := [0xBB]] ! j = chars ! j" by simp
  show ?thesis
  proof (cases "chars ! j = [0x22]")
    case True
    with same classifiedOpening_update[OF assms] show ?thesis
      by (simp add: ruQuotes_step_marker)
  next
    case False
    with same show ?thesis by (simp add: ruQuotes_step_other)
  qed
qed

lemma foldl_step_update:
  assumes "chars ! i = [0x22]" and "i < length chars" and "i \<notin> set js"
  shows "foldl (ruQuotes_step (chars[i := [0xBB]])) st js = foldl (ruQuotes_step chars) st js"
  using assms(3)
proof (induction js arbitrary: st)
  case Nil
  show ?case by simp
next
  case (Cons j js)
  then have "j \<noteq> i" and "i \<notin> set js" by auto
  with Cons.IH ruQuotes_step_update[OF assms(1,2)] show ?case by simp
qed

text \<open>
  C3. After every step of the scan the depth is at least 0. A closing marker met at
  depth 0 is emitted as the outer closing glyph and leaves the depth at 0; every other
  marker is classified as it would be if that marker were the glyph itself, and the whole
  scan gives the same result.
\<close>

theorem ruQuotes_depth_never_negative:
  "(\<forall>n \<le> length chars. 0 \<le> snd (ruQuotes_scan chars n))
   \<and> (i < length chars \<and> chars ! i = [0x22] \<and> \<not> classifiedOpening chars i
        \<and> snd (ruQuotes_scan chars i) = 0 \<longrightarrow>
        ruQuotes_scan chars (Suc i) = (fst (ruQuotes_scan chars i) @ [[0xBB]], 0)
        \<and> (\<forall>j. j \<noteq> i \<longrightarrow> classifiedOpening (chars[i := [0xBB]]) j = classifiedOpening chars j)
        \<and> ruQuotes_scan (chars[i := [0xBB]]) (length chars) = ruQuotes_scan chars (length chars))"
proof (intro conjI impI allI)
  fix n
  show "0 \<le> snd (ruQuotes_scan chars n)" by (rule ruQuotes_scan_depth)
next
  assume h: "i < length chars \<and> chars ! i = [0x22] \<and> \<not> classifiedOpening chars i
        \<and> snd (ruQuotes_scan chars i) = 0"
  then show "ruQuotes_scan chars (Suc i) = (fst (ruQuotes_scan chars i) @ [[0xBB]], 0)"
    by (simp add: ruQuotes_scan_Suc ruQuotes_step_marker)
next
  fix j
  assume h: "i < length chars \<and> chars ! i = [0x22] \<and> \<not> classifiedOpening chars i
        \<and> snd (ruQuotes_scan chars i) = 0"
    and "j \<noteq> i"
  then show "classifiedOpening (chars[i := [0xBB]]) j = classifiedOpening chars j"
    by (simp add: classifiedOpening_update)
next
  assume h: "i < length chars \<and> chars ! i = [0x22] \<and> \<not> classifiedOpening chars i
        \<and> snd (ruQuotes_scan chars i) = 0"
  let ?c' = "chars[i := [0xBB]]"
  let ?n = "length chars"
  from h have i: "i < ?n" and q: "chars ! i = [0x22]" by auto
  have split: "[0..<?n] = [0..<i] @ i # [Suc i..<?n]"
    using i by (metis le_add1 less_imp_add_positive upt_add_eq_append upt_conv_Cons zero_le
        add_0 less_eq_nat.simps(1) upt_rec)
  have before: "foldl (ruQuotes_step ?c') ([], 0) [0..<i] = ruQuotes_scan chars i"
    unfolding ruQuotes_scan_def by (rule foldl_step_update[OF q i]) simp
  have at: "ruQuotes_step ?c' (ruQuotes_scan chars i) i = ruQuotes_step chars (ruQuotes_scan chars i) i"
    using h by (simp add: ruQuotes_step_marker ruQuotes_step_other)
  have after: "foldl (ruQuotes_step ?c') st [Suc i..<?n] = foldl (ruQuotes_step chars) st [Suc i..<?n]"
    for st
    by (rule foldl_step_update[OF q i]) simp
  have "ruQuotes_scan ?c' ?n
          = foldl (ruQuotes_step ?c') (ruQuotes_step ?c' (foldl (ruQuotes_step ?c') ([], 0) [0..<i]) i)
              [Suc i..<?n]"
    unfolding ruQuotes_scan_def by (subst split) simp
  also have "\<dots> = foldl (ruQuotes_step chars) (ruQuotes_step chars (ruQuotes_scan chars i) i) [Suc i..<?n]"
    by (simp add: before at after)
  also have "\<dots> = ruQuotes_scan chars ?n"
  proof -
    have "ruQuotes_scan chars ?n
            = foldl (ruQuotes_step chars) (ruQuotes_step chars (foldl (ruQuotes_step chars) ([], 0) [0..<i]) i)
                [Suc i..<?n]"
      unfolding ruQuotes_scan_def by (subst split) simp
    then show ?thesis by (simp add: ruQuotes_scan_def)
  qed
  finally show "ruQuotes_scan ?c' ?n = ruQuotes_scan chars ?n" .
qed

text \<open>
  The scan of \<open>a" "b"\<close>: the first marker follows a letter at depth 0 and is emitted as
  the closing guillemet; the two markers after it open and close as usual.
\<close>

definition ex_stray :: "jsstring list" where
  "ex_stray = [[0x61], [0x22], [0x20], [0x22], [0x62], [0x22]]"

lemma ex_stray_facts:
  "1 < length ex_stray" "ex_stray ! 1 = [0x22]" "\<not> classifiedOpening ex_stray 1"
  "snd (ruQuotes_scan ex_stray 1) = 0"
  by code_simp+

theorem ruQuotes_depth_never_negative_witness:
  "0 \<le> snd (ruQuotes_scan ex_stray 4)
   \<and> ruQuotes_scan ex_stray (Suc 1) = (fst (ruQuotes_scan ex_stray 1) @ [[0xBB]], 0)
   \<and> classifiedOpening (ex_stray[1 := [0xBB]]) 3 = classifiedOpening ex_stray 3
   \<and> ruQuotes_scan (ex_stray[1 := [0xBB]]) (length ex_stray)
       = ruQuotes_scan ex_stray (length ex_stray)
   \<and> concat (fst (ruQuotes_scan ex_stray (length ex_stray)))
       = [0x61, 0xBB, 0x20, 0xAB, 0x62, 0xBB]"
proof -
  note inst = ruQuotes_depth_never_negative[of ex_stray 1]
  have len: "(4::nat) \<le> length ex_stray" by code_simp
  from inst len have d: "0 \<le> snd (ruQuotes_scan ex_stray 4)" by blast
  from inst ex_stray_facts
  have r: "ruQuotes_scan ex_stray (Suc 1) = (fst (ruQuotes_scan ex_stray 1) @ [[0xBB]], 0)
        \<and> (\<forall>j. j \<noteq> 1 \<longrightarrow> classifiedOpening (ex_stray[1 := [0xBB]]) j = classifiedOpening ex_stray j)
        \<and> ruQuotes_scan (ex_stray[1 := [0xBB]]) (length ex_stray)
            = ruQuotes_scan ex_stray (length ex_stray)"
    by blast
  then have c: "classifiedOpening (ex_stray[1 := [0xBB]]) 3 = classifiedOpening ex_stray 3"
    by simp
  have out: "concat (fst (ruQuotes_scan ex_stray (length ex_stray)))
       = [0x61, 0xBB, 0x20, 0xAB, 0x62, 0xBB]"
    by code_simp
  from d r c out show ?thesis by blast
qed

text \<open>
  C4 does not hold of the code. The test for a preceding opening glyph reads
  \<open>chars[i - 1]\<close>, the normalised text, where every quote is the straight marker, and not
  the glyph just emitted: the second of two adjacent markers is always classified as
  closing.
\<close>

lemma ruQuotes_adjacent_marker_closes:
  "0 < i \<Longrightarrow> chars ! (i - 1) = [0x22] \<Longrightarrow> \<not> classifiedOpening chars i"
  by (simp add: classifiedOpening_def Let_def not_opening_after_marker)

text \<open>A space and two straight quotes give a space and the two guillemets, not an outer
  and an inner opening glyph.\<close>

theorem ruQuotes_adjacent_openers:
  "ruQuotes_apply [0x20, 0x22, 0x22] \<lparr>ctx_locale = Ru, protectedRanges = []\<rparr> = [0x20, 0xAB, 0xBB]"
  by code_simp

subsection \<open>The anti-orphan rule\<close>

lemma split_acc_not_Nil: "split_acc sep cur t \<noteq> []"
  by (induction t arbitrary: cur) auto

lemma split_acc_join: "js_join (split_acc sep cur t) [sep] = rev cur @ t"
proof (induction t arbitrary: cur)
  case Nil
  show ?case by simp
next
  case (Cons c t)
  show ?case
  proof (cases "c = sep")
    case True
    have "split_acc sep [] t \<noteq> []" by (rule split_acc_not_Nil)
    then obtain x xs where "split_acc sep [] t = x # xs" by (cases "split_acc sep [] t") auto
    with Cons.IH[of "[]"] True show ?thesis by simp
  next
    case False
    with Cons.IH[of "c # cur"] show ?thesis by simp
  qed
qed

lemma js_join_split: "js_join (js_split t sep) [sep] = t"
  by (simp add: js_split_def split_acc_join)

lemma js_join_snoc: "xs \<noteq> [] \<Longrightarrow> js_join (xs @ [y]) sep = js_join xs sep @ sep @ y"
proof (induction xs sep rule: js_join.induct)
  case (1 sep')
  then show ?case by simp
next
  case (2 x sep')
  show ?case by simp
next
  case (3 x y' xs sep')
  then show ?case by simp
qed

lemma trimEnd_prefix: "trimEnd t @ drop (length (trimEnd t)) t = t"
proof -
  have "rev t = takeWhile isWhiteSpace (rev t) @ dropWhile isWhiteSpace (rev t)" by simp
  then have "t = rev (dropWhile isWhiteSpace (rev t)) @ rev (takeWhile isWhiteSpace (rev t))"
    by (metis rev_append rev_rev_ident)
  then have "t = trimEnd t @ rev (takeWhile isWhiteSpace (rev t))"
    by (simp add: trimEnd_def)
  then show ?thesis by (metis append_eq_conv_conj)
qed

lemma last_two_decomp:
  assumes "3 \<le> length xs"
  shows "\<exists>ys a b. xs = ys @ [a, b] \<and> ys \<noteq> []"
proof (cases xs rule: rev_cases)
  case Nil
  with assms show ?thesis by simp
next
  case (snoc zs b)
  show ?thesis
  proof (cases zs rule: rev_cases)
    case Nil
    with snoc assms show ?thesis by simp
  next
    case (snoc ys a)
    with \<open>xs = zs @ [b]\<close> assms have "xs = ys @ [a, b]" and "ys \<noteq> []" by auto
    then show ?thesis by blast
  qed
qed

text \<open>The last two tokens of a list taken as one, with a no-break space between them.\<close>

definition glueLastTwo :: "jsstring list \<Rightarrow> jsstring list" where
  "glueLastTwo tokens =
     butlast (butlast tokens) @ [last (butlast tokens) @ [0xA0] @ last tokens]"

lemma nbspOrphan_line_glue:
  assumes "3 \<le> length (js_split (trimEnd line) 0x20)"
  shows "nbspOrphan_line line
           = js_join (glueLastTwo (js_split (trimEnd line) 0x20)) [0x20]
             @ drop (length (trimEnd line)) line"
proof -
  from last_two_decomp[OF assms] obtain ys a b
    where eq: "js_split (trimEnd line) 0x20 = ys @ [a, b]" and ne: "ys \<noteq> []"
    by blast
  have glue: "glueLastTwo (ys @ [a, b]) = ys @ [a @ [0xA0] @ b]"
  proof -
    have "butlast (ys @ [a, b]) = ys @ [a]" by (simp add: butlast_append)
    then show ?thesis by (simp add: glueLastTwo_def)
  qed
  have "nbspOrphan_line line
          = js_join ys [0x20] @ [0x20] @ js_join [a, b] [0xA0] @ drop (length (trimEnd line)) line"
    using ne by (simp add: nbspOrphan_line_def Let_def eq)
  also have "\<dots> = js_join (ys @ [a @ [0xA0] @ b]) [0x20] @ drop (length (trimEnd line)) line"
    by (simp add: js_join_snoc[OF ne])
  finally show ?thesis by (simp add: eq glue)
qed

text \<open>The sentence of the rule's test, before and after.\<close>

definition ex_orphan :: jsstring where
  "ex_orphan = [0x42D, 0x442, 0x43E, 0x20, 0x43F, 0x440, 0x43E, 0x441, 0x442, 0x43E, 0x439, 0x20,
     0x442, 0x435, 0x441, 0x442, 0x20, 0x434, 0x43B, 0x44F, 0x20, 0x43F, 0x440, 0x43E,
     0x432, 0x435, 0x440, 0x43A, 0x438]"

definition ex_orphan_glued :: jsstring where
  "ex_orphan_glued = [0x42D, 0x442, 0x43E, 0x20, 0x43F, 0x440, 0x43E, 0x441, 0x442, 0x43E, 0x439, 0x20,
     0x442, 0x435, 0x441, 0x442, 0x20, 0x434, 0x43B, 0x44F, 0xA0, 0x43F, 0x440, 0x43E,
     0x432, 0x435, 0x440, 0x43A, 0x438]"

text \<open>
  C8. The rule works line by line. A line is its tokens (the pieces between ordinary
  spaces, once the trailing white space is set aside) joined by spaces, followed by that
  trailing white space. With fewer than three tokens the line is returned as it is; with
  three or more, the result is the same line with the last two tokens joined by a
  no-break space. The test sentence becomes the sentence with its last space made
  no-break.
\<close>

theorem nbspOrphan_glues_last_two:
  "nbspOrphan_apply text ctx = js_join (map nbspOrphan_line (js_split text 0x0A)) [0x0A]
   \<and> line = js_join (js_split (trimEnd line) 0x20) [0x20] @ drop (length (trimEnd line)) line
   \<and> (length (js_split (trimEnd line) 0x20) < 3 \<longrightarrow> nbspOrphan_line line = line)
   \<and> (3 \<le> length (js_split (trimEnd line) 0x20) \<longrightarrow>
        nbspOrphan_line line
          = js_join (glueLastTwo (js_split (trimEnd line) 0x20)) [0x20]
            @ drop (length (trimEnd line)) line)
   \<and> nbspOrphan_apply ex_orphan ctx = ex_orphan_glued"
proof (intro conjI impI)
  show "nbspOrphan_apply text ctx = js_join (map nbspOrphan_line (js_split text 0x0A)) [0x0A]"
    by (simp add: nbspOrphan_apply_def)
next
  show "line = js_join (js_split (trimEnd line) 0x20) [0x20] @ drop (length (trimEnd line)) line"
    by (simp only: js_join_split trimEnd_prefix)
next
  assume "length (js_split (trimEnd line) 0x20) < 3"
  then show "nbspOrphan_line line = line"
    by (simp add: nbspOrphan_line_def Let_def)
next
  assume "3 \<le> length (js_split (trimEnd line) 0x20)"
  then show "nbspOrphan_line line
          = js_join (glueLastTwo (js_split (trimEnd line) 0x20)) [0x20]
            @ drop (length (trimEnd line)) line"
    by (rule nbspOrphan_line_glue)
next
  have "nbspOrphan_line ex_orphan = ex_orphan_glued" by code_simp
  moreover have "js_split ex_orphan 0x0A = [ex_orphan]" by code_simp
  ultimately show "nbspOrphan_apply ex_orphan ctx = ex_orphan_glued"
    by (simp add: nbspOrphan_apply_def)
qed

text \<open>A line of two words and a trailing space, and a line of three words.\<close>

theorem nbspOrphan_glues_last_two_witness:
  "length (js_split (trimEnd [0x61, 0x20, 0x62, 0x20]) 0x20) < 3
   \<and> nbspOrphan_line [0x61, 0x20, 0x62, 0x20] = [0x61, 0x20, 0x62, 0x20]
   \<and> 3 \<le> length (js_split (trimEnd [0x61, 0x20, 0x62, 0x20, 0x63]) 0x20)
   \<and> nbspOrphan_line [0x61, 0x20, 0x62, 0x20, 0x63] = [0x61, 0x20, 0x62, 0xA0, 0x63]"
proof -
  have a: "length (js_split (trimEnd [0x61, 0x20, 0x62, 0x20]) 0x20) < 3" by code_simp
  have b: "3 \<le> length (js_split (trimEnd [0x61, 0x20, 0x62, 0x20, 0x63]) 0x20)" by code_simp
  have g: "js_join (glueLastTwo (js_split (trimEnd [0x61, 0x20, 0x62, 0x20, 0x63]) 0x20)) [0x20]
             @ drop (length (trimEnd [0x61, 0x20, 0x62, 0x20, 0x63])) [0x61, 0x20, 0x62, 0x20, 0x63]
           = [0x61, 0x20, 0x62, 0xA0, 0x63]"
    by code_simp
  from nbspOrphan_glues_last_two[of "[]" "\<lparr>ctx_locale = Common, protectedRanges = []\<rparr>"
      "[0x61, 0x20, 0x62, 0x20]"] a
  have r1: "nbspOrphan_line [0x61, 0x20, 0x62, 0x20] = [0x61, 0x20, 0x62, 0x20]" by blast
  from nbspOrphan_glues_last_two[of "[]" "\<lparr>ctx_locale = Common, protectedRanges = []\<rparr>"
      "[0x61, 0x20, 0x62, 0x20, 0x63]"] b
  have "nbspOrphan_line [0x61, 0x20, 0x62, 0x20, 0x63]
          = js_join (glueLastTwo (js_split (trimEnd [0x61, 0x20, 0x62, 0x20, 0x63]) 0x20)) [0x20]
            @ drop (length (trimEnd [0x61, 0x20, 0x62, 0x20, 0x63])) [0x61, 0x20, 0x62, 0x20, 0x63]"
    by blast
  with g have r2: "nbspOrphan_line [0x61, 0x20, 0x62, 0x20, 0x63] = [0x61, 0x20, 0x62, 0xA0, 0x63]"
    by simp
  from a r1 b r2 show ?thesis by blast
qed

end
